theory Spec2Isabelle
  imports Complex_Main
begin

section \<open>Physical quantities\<close>

text \<open>
  The calculator works on astropy quantities: a floating-point magnitude together with a
  unit. Magnitudes are modelled as real numbers, so every statement below is about exact
  arithmetic on finite values: rounding, infinities and NaN are outside the model.
  Where numpy would divide by zero or take the root of a negative number it yields an
  infinity or NaN, while HOL has \<open>x / 0 = 0\<close>; the theorems about the formulas carry
  the hypotheses that keep the divisors positive and the radicands non-negative.
\<close>

datatype dimension = Frequency | Time | FluxDensity | Dimensionless | Angle | Length | Temperature

datatype unit = Hz | kHz | MHz | GHz | Sec | Minute | Hour | Jy | mJy | uJy | J_per_m2
  | One | Deg | Metre | Micron | Kelvin

fun dimension_of :: "unit \<Rightarrow> dimension" where
  "dimension_of Hz = Frequency"
| "dimension_of kHz = Frequency"
| "dimension_of MHz = Frequency"
| "dimension_of GHz = Frequency"
| "dimension_of Sec = Time"
| "dimension_of Minute = Time"
| "dimension_of Hour = Time"
| "dimension_of Jy = FluxDensity"
| "dimension_of mJy = FluxDensity"
| "dimension_of uJy = FluxDensity"
| "dimension_of J_per_m2 = FluxDensity"
| "dimension_of One = Dimensionless"
| "dimension_of Deg = Angle"
| "dimension_of Metre = Length"
| "dimension_of Micron = Length"
| "dimension_of Kelvin = Temperature"

text \<open>The size of one unit in SI base units (a jansky is 1e-26 joule per square metre).\<close>

fun scale :: "unit \<Rightarrow> real" where
  "scale Hz = 1"
| "scale kHz = 1000"
| "scale MHz = 1000000"
| "scale GHz = 1000000000"
| "scale Sec = 1"
| "scale Minute = 60"
| "scale Hour = 3600"
| "scale Jy = 1 / 10 ^ 26"
| "scale mJy = 1 / 10 ^ 29"
| "scale uJy = 1 / 10 ^ 32"
| "scale J_per_m2 = 1"
| "scale One = 1"
| "scale Deg = pi / 180"
| "scale Metre = 1"
| "scale Micron = 1 / 1000000"
| "scale Kelvin = 1"

record quantity =
  qvalue :: real
  qunit :: unit

definition si :: "quantity \<Rightarrow> real" where
  "si q = qvalue q * scale (qunit q)"

text \<open>\<open>q.to(u)\<close> for a unit of the same dimension, and the quantity \<open>x * u\<close>.\<close>

definition to :: "unit \<Rightarrow> quantity \<Rightarrow> quantity" where
  "to u q = \<lparr>qvalue = si q / scale u, qunit = u\<rparr>"

definition from_si :: "unit \<Rightarrow> real \<Rightarrow> quantity" where
  "from_si u x = \<lparr>qvalue = x / scale u, qunit = u\<rparr>"

section \<open>Instrument matching\<close>

text \<open>
  The two coverage tables of \<open>find_applicable_instruments\<close>, as association lists in the
  order of the dictionary literals.
\<close>

definition instrument_obs_freqs :: "(string \<times> (real \<times> real) list) list" where
  "instrument_obs_freqs =
    [(''finer'', [(120, 360)]),
     (''sepia'', [(163, 211), (272, 376), (600, 722)]),
     (''chai'', [(460, 500), (780, 820)]),
     (''tifuun'', [(90, 360)]),
     (''gltcam'', [(130, 170), (190, 250), (250, 295), (330, 365), (385, 415), (630, 710)]),
     (''muscat'', [(250, 300)])]"

definition instrument_bandw_vals :: "(string \<times> (real \<times> real) list) list" where
  "instrument_bandw_vals =
    [(''finer'', [(10500, 3000000)]),
     (''sepia'', [(10000, 5600000), (10000, 32000000), (10000, 10000000)]),
     (''chai'', [(10000, 1000000), (10000, 1000000)]),
     (''tifuun'', [(10, 1000)]),
     (''gltcam'', [(1, 5), (1, 5), (1, 5), (1, 5), (1, 5), (1, 5)]),
     (''muscat'', [(1, 5)])]"

text \<open>
  The nested loop over a table: an instrument is appended once for every one of its
  intervals that strictly contains the value.
\<close>

fun applicable :: "real \<Rightarrow> (string \<times> (real \<times> real) list) list \<Rightarrow> string list" where
  "applicable x [] = []"
| "applicable x ((instrument, ranges) # rest) =
     map (\<lambda>_. instrument) (filter (\<lambda>(lo, hi). x > lo \<and> x < hi) ranges) @ applicable x rest"

text \<open>
  The function reads the bare magnitudes of the stored observing frequency and bandwidth
  and returns \<open>list(set(..) & set(..))\<close>, whose order Python leaves open: the result is
  modelled as a set.
\<close>

definition find_applicable_instruments_of :: "real \<Rightarrow> real \<Rightarrow> string set" where
  "find_applicable_instruments_of obs_freq_value bandwidth_value =
     set (applicable obs_freq_value instrument_obs_freqs)
       \<inter> set (applicable bandwidth_value instrument_bandw_vals)"

section \<open>The parameter store\<close>

text \<open>
  \<open>UserInput\<close>, \<open>InstrumentSetup\<close> and \<open>CalculationInput\<close> are declared in
  \<open>atlast_sc.models\<close>; the fields below are the ones the getters and setters of
  \<open>atlast_sc.parameters\<close> read and write. A field holds a quantity (its \<open>.value\<close>, whose
  unit the setters copy into \<open>.unit\<close>); \<open>n_pol\<close> and \<open>weather\<close> are plain numbers.
\<close>

record UserInput =
  t_int :: quantity
  sensitivity :: quantity
  bandwidth :: quantity
  obs_freq :: quantity
  n_pol :: real
  weather :: real
  elevation :: quantity

record InstrumentSetup =
  g :: real
  surface_rms :: quantity
  dish_radius :: quantity
  T_amb :: quantity
  eta_eff :: real
  eta_ill :: real
  eta_spill :: real
  eta_block :: real
  eta_pol :: real

record CalculationInput =
  user_input :: UserInput
  instrument_setup :: InstrumentSetup
  T_cmb :: quantity

text \<open>
  A \<open>Config\<close> object holds two references, \<open>_calculation_inputs\<close> and
  \<open>_original_inputs\<close>. The constructor allocates exactly two \<open>CalculationInput\<close> objects
  (the one it builds and its deep copy) and nothing allocates another one later, so the
  store has two cells. The setters mutate the object a reference points to; \<open>reset\<close>
  re-seats a reference.
\<close>

datatype addr = Built | Copied

record Config =
  store :: "addr \<Rightarrow> CalculationInput"
  calculation_inputs_ref :: addr
  original_inputs_ref :: addr

definition Config_init :: "CalculationInput \<Rightarrow> Config" where
  "Config_init inputs =
     \<lparr>store = (\<lambda>_. inputs), calculation_inputs_ref = Built, original_inputs_ref = Copied\<rparr>"

definition calculation_inputs :: "Config \<Rightarrow> CalculationInput" where
  "calculation_inputs c = store c (calculation_inputs_ref c)"

definition original_inputs :: "Config \<Rightarrow> CalculationInput" where
  "original_inputs c = store c (original_inputs_ref c)"

definition Config_reset :: "Config \<Rightarrow> Config" where
  "Config_reset c = c\<lparr>calculation_inputs_ref := original_inputs_ref c\<rparr>"


section \<open>Errors, validation and the setters\<close>

text \<open>
  The exceptions of the setters. \<open>ValueOutOfRangeException\<close> carries the name of the
  parameter, the offending value and the two bounds.
\<close>

datatype error =
    ValueOutOfRangeException string real real real
  | UnitException string
  | AttributeError string string

record limits =
  declared_dimension :: dimension
  lower_bound :: real
  upper_bound :: real

text \<open>
  Modelled from the spec: \<open>DataHelper.validate\<close> lives in \<open>atlast_sc.utils\<close> and the
  declared bounds of the fields in \<open>atlast_sc.models\<close>; neither module is among the
  sources. The spec gives a setter two checks before the value is committed: the unit
  must be convertible to the dimension of the field, and the value must lie within the
  declared bounds of the field, the error naming the field, the offending value and the
  bounds. The bounds are a parameter \<open>bounds\<close>, from field names to limits in SI
  units.
\<close>

definition validate :: "(string \<Rightarrow> limits) \<Rightarrow> string \<Rightarrow> quantity \<Rightarrow> error option" where
  "validate bounds name v =
     (if dimension_of (qunit v) \<noteq> declared_dimension (bounds name) then Some (UnitException name)
      else if si v < lower_bound (bounds name) \<or> upper_bound (bounds name) < si v
        then Some (ValueOutOfRangeException name (si v)
               (lower_bound (bounds name)) (upper_bound (bounds name)))
      else None)"

text \<open>
  Modelled from the spec: the decorator \<open>Decorators.validate_value\<close> (\<open>atlast_sc.utils\<close>,
  not among the sources) runs the two checks and then the body of the setter.
\<close>

definition validate_value ::
    "(string \<Rightarrow> limits) \<Rightarrow> string \<Rightarrow> (quantity \<Rightarrow> Config \<Rightarrow> error + Config)
      \<Rightarrow> quantity \<Rightarrow> Config \<Rightarrow> error + Config" where
  "validate_value bounds name body v c =
     (case validate bounds name v of Some e \<Rightarrow> Inl e | None \<Rightarrow> body v c)"

text \<open>
  The setter bodies reach the stored field through \<open>calculation_inputs\<close>, a property of
  class \<open>Config\<close>. Looked up on an instance, the property runs its getter and yields the
  live \<open>CalculationInput\<close>; looked up on the class itself, it yields the property object,
  which has no attribute \<open>user_input\<close>.
\<close>

datatype receiver = Config_class | Config_instance

datatype pyvalue = property_object | inputs_at addr

definition getattr_calculation_inputs :: "receiver \<Rightarrow> Config \<Rightarrow> pyvalue" where
  "getattr_calculation_inputs r c =
     (case r of Config_class \<Rightarrow> property_object
              | Config_instance \<Rightarrow> inputs_at (calculation_inputs_ref c))"

definition assign_user_input ::
    "receiver \<Rightarrow> (UserInput \<Rightarrow> UserInput) \<Rightarrow> Config \<Rightarrow> error + Config" where
  "assign_user_input r f c =
     (case getattr_calculation_inputs r c of
        property_object \<Rightarrow> Inl (AttributeError ''property'' ''user_input'')
      | inputs_at a \<Rightarrow>
          Inr (c\<lparr>store := (store c)(a := (store c a)\<lparr>user_input := f (user_input (store c a))\<rparr>)\<rparr>))"

text \<open>
  The bodies of the \<open>t_int\<close> and \<open>sensitivity\<close> setters of \<open>UserInputParameters\<close>. Each
  assigns \<open>.value\<close> and then \<open>.unit\<close> of the same field; the quantity carries both. The
  first goes through \<open>self.config\<close>, the second through the name \<open>Config\<close>, and raises on
  its first statement, before anything is written.
\<close>

definition t_int_setter_body :: "quantity \<Rightarrow> Config \<Rightarrow> error + Config" where
  "t_int_setter_body v c = assign_user_input Config_instance (\<lambda>u. u\<lparr>t_int := v\<rparr>) c"

definition sensitivity_setter_body :: "quantity \<Rightarrow> Config \<Rightarrow> error + Config" where
  "sensitivity_setter_body v c = assign_user_input Config_class (\<lambda>u. u\<lparr>sensitivity := v\<rparr>) c"

definition set_t_int :: "(string \<Rightarrow> limits) \<Rightarrow> quantity \<Rightarrow> Config \<Rightarrow> error + Config" where
  "set_t_int bounds = validate_value bounds ''t_int'' t_int_setter_body"

definition set_sensitivity :: "(string \<Rightarrow> limits) \<Rightarrow> quantity \<Rightarrow> Config \<Rightarrow> error + Config" where
  "set_sensitivity bounds = validate_value bounds ''sensitivity'' sensitivity_setter_body"

section \<open>Derived parameters\<close>

record DerivedParams =
  tau_atm :: real
  T_atm :: real
  T_rx :: real
  eta_a :: real
  eta_s :: real
  T_sys :: real
  T_sky :: real
  sefd :: real

record temperatures =
  temp_T_rx :: real
  temp_T_sys :: real
  temp_T_sky :: real

record efficiencies =
  eff_eta_a :: real
  eff_eta_s :: real

text \<open>
  The atmosphere, temperature and efficiency models (\<open>atlast_sc.derived_groups\<close>) are
  not among the sources: they are parameters. Frequencies are passed in GHz, the unit of
  the first column of the atmosphere table; temperatures, the dish radius and the SEFD
  are in SI units. \<open>k_B\<close> is the Boltzmann constant of \<open>astropy.constants\<close>, in J/K.
\<close>

definition k_B :: real where
  "k_B = 1380649 / 10 ^ 29"

record models =
  calculate_tau_atm :: "real \<Rightarrow> real \<Rightarrow> quantity \<Rightarrow> real"
  calculate_atmospheric_temperature :: "real \<Rightarrow> real \<Rightarrow> real"
  tau_atm_table_freqs :: "real list"
  Temperatures :: "real \<Rightarrow> quantity \<Rightarrow> quantity \<Rightarrow> real \<Rightarrow> real \<Rightarrow> real \<Rightarrow> real \<Rightarrow> temperatures"
  Efficiencies :: "real \<Rightarrow> quantity \<Rightarrow> real \<Rightarrow> real \<Rightarrow> real \<Rightarrow> real \<Rightarrow> efficiencies"

definition calculate_sefd :: "InstrumentSetup \<Rightarrow> real \<Rightarrow> real \<Rightarrow> real" where
  "calculate_sefd isp T_sys_value eta_a_value =
     (let dish_area = pi * (si (dish_radius isp)) ^ 2
      in (2 * k_B * T_sys_value) / (eta_a_value * dish_area))"

text \<open>The system temperature of one narrow channel, as the loop body computes it.\<close>

definition channel_T_sys :: "models \<Rightarrow> CalculationInput \<Rightarrow> real \<Rightarrow> real" where
  "channel_T_sys M inp freq =
     (let uip = user_input inp; isp = instrument_setup inp;
          tau = calculate_tau_atm M freq (weather uip) (elevation uip);
          T = calculate_atmospheric_temperature M freq (weather uip)
      in temp_T_sys (Temperatures M freq (T_cmb inp) (T_amb isp) (g isp) (eta_eff isp) T tau))"

definition obs_freq_low :: "CalculationInput \<Rightarrow> real" where
  "obs_freq_low inp =
     (si (obs_freq (user_input inp)) - 0.50 * si (bandwidth (user_input inp))) / scale GHz"

definition obs_freq_upp :: "CalculationInput \<Rightarrow> real" where
  "obs_freq_upp inp =
     (si (obs_freq (user_input inp)) + 0.50 * si (bandwidth (user_input inp))) / scale GHz"

text \<open>The grid points strictly inside the band, padded with the two band edges.\<close>

definition obs_freq_list :: "models \<Rightarrow> CalculationInput \<Rightarrow> real list" where
  "obs_freq_list M inp =
     obs_freq_low inp
       # filter (\<lambda>f. f > obs_freq_low inp \<and> f < obs_freq_upp inp) (tau_atm_table_freqs M)
       @ [obs_freq_upp inp]"

definition obs_band_list :: "real list \<Rightarrow> real list" where
  "obs_band_list fs = map2 (\<lambda>hi lo. hi - lo) (tl fs) (butlast fs)"

definition channel_centres :: "real list \<Rightarrow> real list" where
  "channel_centres fs = map2 (\<lambda>hi lo. (hi + lo) * 0.50) (tl fs) (butlast fs)"

definition channel_sefds :: "models \<Rightarrow> CalculationInput \<Rightarrow> real \<Rightarrow> real list" where
  "channel_sefds M inp eta_a_value =
     map (\<lambda>freq. calculate_sefd (instrument_setup inp) (channel_T_sys M inp freq) eta_a_value)
       (channel_centres (obs_freq_list M inp))"

definition effective_sefd :: "real \<Rightarrow> real list \<Rightarrow> real list \<Rightarrow> real" where
  "effective_sefd total_bandwidth bands sefds =
     sqrt (total_bandwidth / sum_list (map2 (\<lambda>b s. b / s ^ 2) bands sefds))"

definition calculate_derived_parameters :: "models \<Rightarrow> bool \<Rightarrow> CalculationInput \<Rightarrow> DerivedParams" where
  "calculate_derived_parameters M finetune_flag inp =
     (let uip = user_input inp; isp = instrument_setup inp;
          centre = si (obs_freq uip) / scale GHz;
          eta = Efficiencies M centre (surface_rms isp) (eta_ill isp) (eta_spill isp)
                  (eta_block isp) (eta_pol isp);
          tau = calculate_tau_atm M centre (weather uip) (elevation uip);
          T = calculate_atmospheric_temperature M centre (weather uip);
          temps = Temperatures M centre (T_cmb inp) (T_amb isp) (g isp) (eta_eff isp) T tau;
          fs = obs_freq_list M inp;
          sefd_value =
            (if finetune_flag \<and> length fs > 1
             then effective_sefd (si (bandwidth uip))
                    (map (\<lambda>b. b * scale GHz) (obs_band_list fs))
                    (channel_sefds M inp (eff_eta_a eta))
             else calculate_sefd isp (temp_T_sys temps) (eff_eta_a eta))
      in \<lparr>tau_atm = tau, T_atm = T, T_rx = temp_T_rx temps, eta_a = eff_eta_a eta,
          eta_s = eff_eta_s eta, T_sys = temp_T_sys temps, T_sky = temp_T_sky temps,
          sefd = sefd_value\<rparr>)"

section \<open>The calculator\<close>

datatype warning = CalculatedValueInvalidWarning quantity error

text \<open>
  The attributes of a \<open>Calculator\<close> object. Class \<open>Calculator\<close> defines no property:
  \<open>self.sensitivity\<close> and \<open>self.t_int\<close> are instance attributes of the calculator itself,
  the first bound by the constructor, the second by the first assignment to it.
  \<open>self._uip\<close> and \<open>self._isp\<close> wrap the configuration without state of their own,
  and \<open>dp\<close> is the \<open>DerivedParams\<close> object held by \<open>self._dp\<close>, which the constructor
  assigns. \<open>warnings\<close> collects what \<open>warnings.warn\<close> is called with. The constructor
  receives the inputs after the merge with the defaults, which \<open>atlast_sc.models\<close>
  performs; its last statement calls \<open>find_applicable_instruments\<close> and drops the
  result.
\<close>

record Calculator =
  finetune :: bool
  config :: Config
  dp :: DerivedParams
  self_sensitivity :: quantity
  self_t_int :: "quantity option"
  warnings :: "warning list"

definition live_user_input :: "Calculator \<Rightarrow> UserInput" where
  "live_user_input c = user_input (calculation_inputs (config c))"

definition Calculator_calculate_derived_parameters :: "models \<Rightarrow> Calculator \<Rightarrow> DerivedParams" where
  "Calculator_calculate_derived_parameters M c =
     calculate_derived_parameters M (finetune c) (calculation_inputs (config c))"

definition Calculator_init :: "models \<Rightarrow> bool \<Rightarrow> CalculationInput \<Rightarrow> Calculator" where
  "Calculator_init M finetune_flag inputs =
     \<lparr>finetune = finetune_flag, config = Config_init inputs,
      dp = calculate_derived_parameters M finetune_flag inputs,
      self_sensitivity = sensitivity (user_input inputs), self_t_int = None, warnings = []\<rparr>"

text \<open>Assignment to an instance attribute: it rebinds the attribute and cannot raise.\<close>

definition setattr_sensitivity :: "quantity \<Rightarrow> Calculator \<Rightarrow> error + Calculator" where
  "setattr_sensitivity v c = Inr (c\<lparr>self_sensitivity := v\<rparr>)"

definition setattr_t_int :: "quantity \<Rightarrow> Calculator \<Rightarrow> error + Calculator" where
  "setattr_t_int v c = Inr (c\<lparr>self_t_int := Some v\<rparr>)"

text \<open>
  \<open>try: <assignment> except ValueOutOfRangeException as e: warnings.warn(..)\<close>: an
  out-of-range error becomes a warning and the state before the assignment is kept; any
  other error propagates.
\<close>

definition try_update ::
    "(Calculator \<Rightarrow> error + Calculator) \<Rightarrow> quantity \<Rightarrow> Calculator \<Rightarrow> error + Calculator" where
  "try_update assignment calculated_value c =
     (case assignment c of
        Inr c' \<Rightarrow> Inr c'
      | Inl (ValueOutOfRangeException p v lo hi) \<Rightarrow>
          Inr (c\<lparr>warnings := warnings c
                 @ [CalculatedValueInvalidWarning calculated_value
                      (ValueOutOfRangeException p v lo hi)]\<rparr>)
      | Inl e \<Rightarrow> Inl e)"

text \<open>The radiometer equation in both directions, in SI units.\<close>

definition sensitivity_formula :: "Calculator \<Rightarrow> quantity \<Rightarrow> real" where
  "sensitivity_formula c t =
     sefd (dp c)
       / (eta_s (dp c) * sqrt (n_pol (live_user_input c) * si (bandwidth (live_user_input c)) * si t))"

definition t_int_formula :: "Calculator \<Rightarrow> quantity \<Rightarrow> real" where
  "t_int_formula c s =
     (sefd (dp c) / (si s * eta_s (dp c))) ^ 2
       / (n_pol (live_user_input c) * si (bandwidth (live_user_input c)))"

text \<open>
  The conversion of a result to its most convenient unit. The argument is the SI
  magnitude of the computed quantity; the chain of \<open>if\<close>/\<open>elif\<close> has no \<open>else\<close>, and
  a value that took none of its branches would keep the unit it was computed in, which
  is written here as the SI unit of its dimension.
\<close>

definition convenient_sensitivity :: "real \<Rightarrow> quantity" where
  "convenient_sensitivity x =
     (let sensitivityresult = x / scale mJy
      in if sensitivityresult < 1 then from_si uJy x
         else if sensitivityresult \<ge> 1 \<and> sensitivityresult < 1000 then from_si mJy x
         else if sensitivityresult \<ge> 1000 then from_si Jy x
         else from_si J_per_m2 x)"

definition convenient_t_int :: "real \<Rightarrow> quantity" where
  "convenient_t_int x =
     (let timeresult = x / scale Sec
      in if timeresult < 60 then from_si Sec x
         else if timeresult \<ge> 60 \<and> timeresult < 3600 then from_si Minute x
         else if timeresult \<ge> 3600 then from_si Hour x
         else from_si Sec x)"

definition calculate_sensitivity ::
    "(string \<Rightarrow> limits) \<Rightarrow> quantity option \<Rightarrow> bool \<Rightarrow> Calculator
      \<Rightarrow> error + (quantity \<times> Calculator)" where
  "calculate_sensitivity bounds t_opt update_calculator c =
     (case (case t_opt of
              Some t \<Rightarrow>
                if update_calculator
                then (case set_t_int bounds t (config c) of
                        Inl e \<Rightarrow> Inl e
                      | Inr cfg \<Rightarrow> Inr (t, c\<lparr>config := cfg\<rparr>))
                else (case validate bounds ''t_int'' t of
                        Some e \<Rightarrow> Inl e
                      | None \<Rightarrow> Inr (t, c))
            | None \<Rightarrow> Inr (t_int (live_user_input c), c)) of
        Inl e \<Rightarrow> Inl e
      | Inr (t, c1) \<Rightarrow>
          (let result = convenient_sensitivity (sensitivity_formula c1 t)
           in if update_calculator
              then (case try_update (setattr_sensitivity result) result c1 of
                      Inl e \<Rightarrow> Inl e
                    | Inr c2 \<Rightarrow> Inr (result, c2))
              else Inr (result, c1)))"

definition calculate_t_integration ::
    "(string \<Rightarrow> limits) \<Rightarrow> quantity option \<Rightarrow> bool \<Rightarrow> Calculator
      \<Rightarrow> error + (quantity \<times> Calculator)" where
  "calculate_t_integration bounds s_opt update_calculator c =
     (case (case s_opt of
              Some s \<Rightarrow>
                if update_calculator
                then (case setattr_sensitivity s c of
                        Inl e \<Rightarrow> Inl e
                      | Inr c' \<Rightarrow> Inr (s, c'))
                else (case validate bounds ''sensitivity'' s of
                        Some e \<Rightarrow> Inl e
                      | None \<Rightarrow> Inr (s, c))
            | None \<Rightarrow> Inr (self_sensitivity c, c)) of
        Inl e \<Rightarrow> Inl e
      | Inr (s, c1) \<Rightarrow>
          (let result = convenient_t_int (t_int_formula c1 s)
           in if update_calculator
              then (case try_update (setattr_t_int result) result c1 of
                      Inl e \<Rightarrow> Inl e
                    | Inr c2 \<Rightarrow> Inr (result, c2))
              else Inr (result, c1)))"

text \<open>
  \<open>reset\<close> resets the configuration and calls \<open>_calculate_derived_parameters\<close>, which
  returns the new parameters; the call is a statement, its value is dropped.
\<close>

definition Calculator_reset :: "models \<Rightarrow> Calculator \<Rightarrow> Calculator" where
  "Calculator_reset M c =
     (let c1 = c\<lparr>config := Config_reset (config c)\<rparr>;
          dropped = Calculator_calculate_derived_parameters M c1
      in c1)"

definition Calculator_find_applicable_instruments :: "Calculator \<Rightarrow> string set" where
  "Calculator_find_applicable_instruments c =
     find_applicable_instruments_of (qvalue (obs_freq (live_user_input c)))
       (qvalue (bandwidth (live_user_input c)))"

text \<open>
  Modelled from the spec: the decorator \<open>Decorators.validate_and_update_params\<close>
  (\<open>atlast_sc.utils\<close>, not among the sources) wraps the setters of the fields that feed
  the derivation. The spec gives such a setter a third step after the two checks and the
  commit: a synchronous recomputation of the derived parameters, whose result replaces
  the snapshot. The body of the \<open>obs_freq\<close> setter is the one of the sources.
\<close>

definition validate_and_update_params ::
    "(string \<Rightarrow> limits) \<Rightarrow> models \<Rightarrow> string \<Rightarrow> (quantity \<Rightarrow> Config \<Rightarrow> error + Config)
      \<Rightarrow> quantity \<Rightarrow> Calculator \<Rightarrow> error + Calculator" where
  "validate_and_update_params bounds M name body v c =
     (case validate_value bounds name body v (config c) of
        Inl e \<Rightarrow> Inl e
      | Inr cfg \<Rightarrow>
          Inr (c\<lparr>config := cfg,
                 dp := Calculator_calculate_derived_parameters M (c\<lparr>config := cfg\<rparr>)\<rparr>))"

definition obs_freq_setter_body :: "quantity \<Rightarrow> Config \<Rightarrow> error + Config" where
  "obs_freq_setter_body v c = assign_user_input Config_instance (\<lambda>u. u\<lparr>obs_freq := v\<rparr>) c"

definition set_obs_freq ::
    "(string \<Rightarrow> limits) \<Rightarrow> models \<Rightarrow> quantity \<Rightarrow> Calculator \<Rightarrow> error + Calculator" where
  "set_obs_freq bounds M = validate_and_update_params bounds M ''obs_freq'' obs_freq_setter_body"

section \<open>The matching rule in the words of the specification\<close>

text \<open>
  An instrument matches a value when one of its declared intervals contains the value
  strictly; the applicable instruments are those that match both the observing
  frequency and the bandwidth.
\<close>

definition covers :: "(real \<times> real) list \<Rightarrow> real \<Rightarrow> bool" where
  "covers ranges x = (\<exists>r \<in> set ranges. fst r < x \<and> x < snd r)"

definition match_set :: "(string \<times> (real \<times> real) list) list \<Rightarrow> real \<Rightarrow> string set" where
  "match_set table x = {i. \<exists>ranges. (i, ranges) \<in> set table \<and> covers ranges x}"

section \<open>The channel sum in the words of the specification\<close>

text \<open>
  The band is cut at the entries of the padded frequency list: sub-channel \<open>i\<close> runs
  from entry \<open>i\<close> to entry \<open>i + 1\<close>, its width is their difference, and its SEFD is
  the SEFD computed at its midpoint, with the aperture efficiency of the band centre.
\<close>

definition sub_channels :: "models \<Rightarrow> CalculationInput \<Rightarrow> nat" where
  "sub_channels M inp = length (obs_freq_list M inp) - 1"

definition sub_channel_width :: "models \<Rightarrow> CalculationInput \<Rightarrow> nat \<Rightarrow> real" where
  "sub_channel_width M inp i =
     (obs_freq_list M inp ! Suc i - obs_freq_list M inp ! i) * scale GHz"

definition sub_channel_sefd :: "models \<Rightarrow> CalculationInput \<Rightarrow> nat \<Rightarrow> real" where
  "sub_channel_sefd M inp i =
     calculate_sefd (instrument_setup inp)
       (channel_T_sys M inp ((obs_freq_list M inp ! Suc i + obs_freq_list M inp ! i) / 2))
       (eta_a (calculate_derived_parameters M True inp))"

section \<open>An example configuration\<close>

text \<open>
  A configuration on which the operations are evaluated below: an observation at
  100 GHz with a 1 GHz band and two polarisations on a 25 m dish, an atmosphere table
  with a grid point every 2 GHz, and a system temperature that is 100 K at 100 GHz and
  grows by 200 K per GHz away from it. The bounds admit integration times from 1 s to
  1e9 s, flux densities up to 1 J/m2 and observing frequencies from 35 to 950 GHz.
\<close>

definition example_user_input :: UserInput where
  "example_user_input =
     \<lparr>t_int = \<lparr>qvalue = 100, qunit = Sec\<rparr>, sensitivity = \<lparr>qvalue = 3, qunit = mJy\<rparr>,
      bandwidth = \<lparr>qvalue = 1, qunit = GHz\<rparr>, obs_freq = \<lparr>qvalue = 100, qunit = GHz\<rparr>,
      n_pol = 2, weather = 25, elevation = \<lparr>qvalue = 45, qunit = Deg\<rparr>\<rparr>"

definition example_instrument_setup :: InstrumentSetup where
  "example_instrument_setup =
     \<lparr>g = 1, surface_rms = \<lparr>qvalue = 25, qunit = Micron\<rparr>,
      dish_radius = \<lparr>qvalue = 25, qunit = Metre\<rparr>, T_amb = \<lparr>qvalue = 270, qunit = Kelvin\<rparr>,
      eta_eff = 8 / 10, eta_ill = 8 / 10, eta_spill = 95 / 100, eta_block = 94 / 100,
      eta_pol = 995 / 1000\<rparr>"

definition example_inputs :: CalculationInput where
  "example_inputs =
     \<lparr>user_input = example_user_input, instrument_setup = example_instrument_setup,
      T_cmb = \<lparr>qvalue = 2726 / 1000, qunit = Kelvin\<rparr>\<rparr>"

definition example_models :: models where
  "example_models =
     \<lparr>calculate_tau_atm = (\<lambda>freq w el. 0),
      calculate_atmospheric_temperature = (\<lambda>freq w. 100 + 200 * \<bar>freq - 100\<bar>),
      tau_atm_table_freqs = [96, 98, 100, 102, 104],
      Temperatures = (\<lambda>freq cmb amb gain eff T tau.
         \<lparr>temp_T_rx = 0, temp_T_sys = T, temp_T_sky = T\<rparr>),
      Efficiencies = (\<lambda>freq rms ill spill block pol. \<lparr>eff_eta_a = 1, eff_eta_s = 1\<rparr>)\<rparr>"

definition example_bounds :: "string \<Rightarrow> limits" where
  "example_bounds name =
     (if name = ''t_int''
        then \<lparr>declared_dimension = Time, lower_bound = 1, upper_bound = 10 ^ 9\<rparr>
      else if name = ''sensitivity''
        then \<lparr>declared_dimension = FluxDensity, lower_bound = 0, upper_bound = 1\<rparr>
      else if name = ''obs_freq''
        then \<lparr>declared_dimension = Frequency, lower_bound = 35 * 10 ^ 9,
              upper_bound = 950 * 10 ^ 9\<rparr>
      else \<lparr>declared_dimension = Dimensionless, lower_bound = 0, upper_bound = 1\<rparr>)"

definition example_calculator :: "bool \<Rightarrow> Calculator" where
  "example_calculator finetune_flag = Calculator_init example_models finetune_flag example_inputs"

text \<open>The same observation at 101 GHz, between two grid points of the table.\<close>

definition shifted_inputs :: CalculationInput where
  "shifted_inputs = example_inputs\<lparr>user_input :=
      example_user_input\<lparr>obs_freq := \<lparr>qvalue = 101, qunit = GHz\<rparr>\<rparr>\<rparr>"

text \<open>
  The same observation at 100.3 GHz: the grid point at 100 GHz cuts the band from 99.8
  to 100.8 GHz into two channels of unequal width.
\<close>

definition offset_inputs :: CalculationInput where
  "offset_inputs = example_inputs\<lparr>user_input :=
      example_user_input\<lparr>obs_freq := \<lparr>qvalue = 1003 / 10, qunit = GHz\<rparr>\<rparr>\<rparr>"

section \<open>Instrument matching: the code against the rule\<close>

lemma set_applicable: "set (applicable x table) = match_set table x"
proof (induction x table rule: applicable.induct)
  case (1 x)
  show ?case by (simp add: match_set_def)
next
  case (2 x instrument ranges rest)
  have here: "set (map (\<lambda>_. instrument) (filter (\<lambda>(lo, hi). x > lo \<and> x < hi) ranges))
      = (if covers ranges x then {instrument} else {})"
    by (auto simp: covers_def)
  have split: "match_set ((instrument, ranges) # rest) x
      = (if covers ranges x then {instrument} else {}) \<union> match_set rest x"
    by (auto simp: match_set_def)
  show ?case using 2 here split by simp
qed

text \<open>
  Claim C9. \<open>find_applicable_instruments\<close> returns exactly the instruments that match
  both the stored observing frequency and the stored bandwidth, an interval matching
  only the values strictly between its endpoints: with its range (120, 360), FINER is
  not matched by 120 or by 360 and is matched by 200, and (with a bandwidth value of
  20000, which FINER, SEPIA and CHAI cover) the whole function returns no instrument at
  120, SEPIA alone at 360, and FINER and SEPIA at 200.
\<close>

theorem find_applicable_instruments_intersection:
  "Calculator_find_applicable_instruments c
     = match_set instrument_obs_freqs (qvalue (obs_freq (live_user_input c)))
         \<inter> match_set instrument_bandw_vals (qvalue (bandwidth (live_user_input c)))
   \<and> ''finer'' \<notin> set (applicable 120 instrument_obs_freqs)
   \<and> ''finer'' \<notin> set (applicable 360 instrument_obs_freqs)
   \<and> ''finer'' \<in> set (applicable 200 instrument_obs_freqs)
   \<and> find_applicable_instruments_of 120 20000 = {}
   \<and> find_applicable_instruments_of 360 20000 = {''sepia''}
   \<and> find_applicable_instruments_of 200 20000 = {''finer'', ''sepia''}"
proof -
  have general: "Calculator_find_applicable_instruments c
     = match_set instrument_obs_freqs (qvalue (obs_freq (live_user_input c)))
         \<inter> match_set instrument_bandw_vals (qvalue (bandwidth (live_user_input c)))"
    by (simp add: Calculator_find_applicable_instruments_def find_applicable_instruments_of_def
        set_applicable)
  have edges: "''finer'' \<notin> set (applicable 120 instrument_obs_freqs)
      \<and> ''finer'' \<notin> set (applicable 360 instrument_obs_freqs)
      \<and> ''finer'' \<in> set (applicable 200 instrument_obs_freqs)"
    by (simp add: instrument_obs_freqs_def)
  have results: "find_applicable_instruments_of 120 20000 = {}
      \<and> find_applicable_instruments_of 360 20000 = {''sepia''}
      \<and> find_applicable_instruments_of 200 20000 = {''finer'', ''sepia''}"
    by (simp add: find_applicable_instruments_of_def instrument_obs_freqs_def
        instrument_bandw_vals_def)
  from general edges results show ?thesis by blast
qed

section \<open>The sensitivity setter\<close>

lemma sensitivity_setter_body_raises:
  "sensitivity_setter_body v c = Inl (AttributeError ''property'' ''user_input'')"
  by (simp add: sensitivity_setter_body_def assign_user_input_def getattr_calculation_inputs_def)

text \<open>
  Claim C10. For every value, every configuration and every choice of bounds, the
  \<open>sensitivity\<close> setter of \<open>UserInputParameters\<close> ends in an error and so commits
  nothing: the error of the validation when the value is rejected, and otherwise the
  \<open>AttributeError\<close> of its body, which looks \<open>calculation_inputs\<close> up on the class
  \<open>Config\<close> and asks the property object for \<open>user_input\<close>.
\<close>

theorem sensitivity_setter_never_commits:
  "set_sensitivity bounds v c
     = Inl (case validate bounds ''sensitivity'' v of
              Some e \<Rightarrow> e
            | None \<Rightarrow> AttributeError ''property'' ''user_input'')"
  by (simp add: set_sensitivity_def validate_value_def sensitivity_setter_body_raises
      split: option.split)

section \<open>Reset of the configuration\<close>

lemma Config_reset_restores: "calculation_inputs (Config_reset c) = original_inputs c"
  by (simp add: Config_reset_def calculation_inputs_def original_inputs_def)

lemma example_t_int_200_valid:
  "validate example_bounds ''t_int'' \<lparr>qvalue = 200, qunit = Sec\<rparr> = None"
  by (simp add: validate_def example_bounds_def si_def)

lemma t_int_of_example_inputs:
  "t_int (user_input example_inputs) = \<lparr>qvalue = 100, qunit = Sec\<rparr>"
  by (simp add: example_inputs_def example_user_input_def)

text \<open>
  Claim C3, evaluated on the example configuration. \<open>Config.reset\<close> assigns the
  reference \<open>_original_inputs\<close> to \<open>_calculation_inputs\<close>, so after a first reset both
  names denote the snapshot object. The configuration is built with an integration time
  of 100 s and reset; setting the integration time to 200 s, a valid value, then writes
  into the snapshot, and a second reset yields 200 s, not the 100 s of the construction.
\<close>

theorem reset_shares_the_snapshot:
  "t_int (user_input (original_inputs (Config_init example_inputs))) = \<lparr>qvalue = 100, qunit = Sec\<rparr>
   \<and> (case set_t_int example_bounds \<lparr>qvalue = 200, qunit = Sec\<rparr>
            (Config_reset (Config_init example_inputs)) of
        Inl e \<Rightarrow> False
      | Inr c \<Rightarrow>
          t_int (user_input (original_inputs c)) = \<lparr>qvalue = 200, qunit = Sec\<rparr>
          \<and> t_int (user_input (calculation_inputs (Config_reset c))) = \<lparr>qvalue = 200, qunit = Sec\<rparr>)"
  by (simp add: set_t_int_def validate_value_def example_t_int_200_valid t_int_setter_body_def
      assign_user_input_def getattr_calculation_inputs_def Config_reset_def Config_init_def
      calculation_inputs_def original_inputs_def t_int_of_example_inputs)

section \<open>Reset of the calculator\<close>

lemma Calculator_reset_dp: "dp (Calculator_reset M c) = dp c"
  by (simp add: Calculator_reset_def Let_def)

lemma Calculator_reset_config: "config (Calculator_reset M c) = Config_reset (config c)"
  by (simp add: Calculator_reset_def Let_def)

lemma k_B_pos: "0 < k_B"
  by (simp add: k_B_def)

lemma example_sefd_at:
  "sefd (calculate_derived_parameters example_models False
       (example_inputs\<lparr>user_input := example_user_input\<lparr>obs_freq := \<lparr>qvalue = f, qunit = GHz\<rparr>\<rparr>\<rparr>))
     = 2 * k_B * (100 + 200 * \<bar>f - 100\<bar>) / (pi * 625)"
  by (simp add: calculate_derived_parameters_def Let_def example_models_def example_inputs_def
      example_user_input_def example_instrument_setup_def calculate_sefd_def si_def)

lemma example_obs_freq_102_valid:
  "validate example_bounds ''obs_freq'' \<lparr>qvalue = 102, qunit = GHz\<rparr> = None"
  by (simp add: validate_def example_bounds_def si_def)

lemma example_set_obs_freq:
  "set_obs_freq example_bounds example_models \<lparr>qvalue = 102, qunit = GHz\<rparr> (example_calculator False)
     = Inr ((example_calculator False)
         \<lparr>config := (Config_init example_inputs)
             \<lparr>store := (\<lambda>_. example_inputs)
                 (Built := example_inputs\<lparr>user_input :=
                     example_user_input\<lparr>obs_freq := \<lparr>qvalue = 102, qunit = GHz\<rparr>\<rparr>\<rparr>)\<rparr>,
           dp := calculate_derived_parameters example_models False
                 (example_inputs\<lparr>user_input :=
                     example_user_input\<lparr>obs_freq := \<lparr>qvalue = 102, qunit = GHz\<rparr>\<rparr>\<rparr>)\<rparr>)"
  by (simp add: set_obs_freq_def validate_and_update_params_def validate_value_def
      example_obs_freq_102_valid obs_freq_setter_body_def assign_user_input_def
      getattr_calculation_inputs_def example_calculator_def Calculator_init_def Config_init_def
      Calculator_calculate_derived_parameters_def calculation_inputs_def example_inputs_def)

text \<open>
  Claim C4, evaluated on the example configuration. The calculator is built at 100 GHz
  and its observing frequency is then set to 102 GHz, which replaces the derived
  parameters by those of 102 GHz. \<open>reset\<close> restores the inputs of the construction, but
  the snapshot it leaves is the one it found: its SEFD is the one of 102 GHz (system
  temperature 500 K), while the parameters recomputed from the restored inputs, which
  \<open>reset\<close> computes and drops, have the SEFD of 100 GHz (100 K).
\<close>

theorem reset_keeps_the_stale_snapshot:
  "(case set_obs_freq example_bounds example_models \<lparr>qvalue = 102, qunit = GHz\<rparr>
            (example_calculator False) of
      Inl e \<Rightarrow> False
    | Inr c \<Rightarrow>
        calculation_inputs (config (Calculator_reset example_models c)) = example_inputs
        \<and> dp (Calculator_reset example_models c) = dp c
        \<and> sefd (dp (Calculator_reset example_models c)) = 2 * k_B * 500 / (pi * 625)
        \<and> sefd (Calculator_calculate_derived_parameters example_models
                  (Calculator_reset example_models c)) = 2 * k_B * 100 / (pi * 625)
        \<and> sefd (dp (Calculator_reset example_models c))
            \<noteq> sefd (Calculator_calculate_derived_parameters example_models
                  (Calculator_reset example_models c)))"
proof -
  let ?moved = "example_inputs\<lparr>user_input :=
      example_user_input\<lparr>obs_freq := \<lparr>qvalue = 102, qunit = GHz\<rparr>\<rparr>\<rparr>"
  have at_102: "sefd (calculate_derived_parameters example_models False ?moved)
      = 2 * k_B * 500 / (pi * 625)"
    using example_sefd_at [of 102] by simp
  have same: "example_inputs\<lparr>user_input :=
      example_user_input\<lparr>obs_freq := \<lparr>qvalue = 100, qunit = GHz\<rparr>\<rparr>\<rparr> = example_inputs"
    by (simp add: example_inputs_def example_user_input_def)
  have at_100: "sefd (calculate_derived_parameters example_models False example_inputs)
      = 2 * k_B * 100 / (pi * 625)"
    using example_sefd_at [of 100] by (simp add: same)
  have differ: "2 * k_B * 500 / (pi * 625) \<noteq> 2 * k_B * 100 / (pi * 625)"
    using k_B_pos by simp
  show ?thesis
    unfolding example_set_obs_freq
    using at_102 at_100 differ
    by (simp add: Calculator_reset_dp Calculator_reset_config
        Config_reset_def Config_init_def calculation_inputs_def
        Calculator_calculate_derived_parameters_def Calculator_reset_def Let_def
        example_calculator_def Calculator_init_def)
qed

section \<open>Sensitivity and integration time\<close>

lemma scale_pos: "0 < scale u"
  by (cases u) simp_all

lemma si_from_si: "si (from_si u x) = x"
  using scale_pos [of u] by (simp add: si_def from_si_def)

lemma si_convenient_sensitivity: "si (convenient_sensitivity x) = x"
  by (simp add: convenient_sensitivity_def Let_def si_from_si)

lemma si_convenient_t_int: "si (convenient_t_int x) = x"
  by (simp add: convenient_t_int_def Let_def si_from_si)

lemma qunit_convenient_sensitivity:
  "qunit (convenient_sensitivity x)
     = (if x / scale mJy < 1 then uJy else if x / scale mJy < 1000 then mJy else Jy)"
  by (simp add: convenient_sensitivity_def Let_def from_si_def)

lemma qunit_convenient_t_int:
  "qunit (convenient_t_int x)
     = (if x / scale Sec < 60 then Sec else if x / scale Sec < 3600 then Minute else Hour)"
  by (simp add: convenient_t_int_def Let_def from_si_def)

lemma try_update_setattr_sensitivity:
  "try_update (setattr_sensitivity v) r c = Inr (c\<lparr>self_sensitivity := v\<rparr>)"
  by (simp add: try_update_def setattr_sensitivity_def)

lemma try_update_setattr_t_int:
  "try_update (setattr_t_int v) r c = Inr (c\<lparr>self_t_int := Some v\<rparr>)"
  by (simp add: try_update_def setattr_t_int_def)

lemma set_t_int_valid:
  "validate bounds ''t_int'' t = None \<Longrightarrow>
   set_t_int bounds t cfg
     = Inr (cfg\<lparr>store := (store cfg)(calculation_inputs_ref cfg :=
          (calculation_inputs cfg)\<lparr>user_input := (user_input (calculation_inputs cfg))\<lparr>t_int := t\<rparr>\<rparr>)\<rparr>)"
  by (simp add: set_t_int_def validate_value_def t_int_setter_body_def assign_user_input_def
      getattr_calculation_inputs_def calculation_inputs_def)

lemma calculate_sensitivity_update:
  assumes "validate bounds ''t_int'' t = None"
  shows "\<exists>r c'. calculate_sensitivity bounds (Some t) True c = Inr (r, c')
     \<and> r = convenient_sensitivity (sefd (dp c) / (eta_s (dp c)
               * sqrt (n_pol (live_user_input c) * si (bandwidth (live_user_input c)) * si t)))
     \<and> self_sensitivity c' = r
     \<and> t_int (live_user_input c') = t
     \<and> sensitivity (live_user_input c') = sensitivity (live_user_input c)
     \<and> dp c' = dp c \<and> warnings c' = warnings c"
  by (simp add: calculate_sensitivity_def set_t_int_valid [OF assms] Let_def
      try_update_setattr_sensitivity sensitivity_formula_def
      live_user_input_def calculation_inputs_def)

lemma example_live_user_input: "live_user_input (example_calculator f) = example_user_input"
  by (simp add: live_user_input_def example_calculator_def Calculator_init_def Config_init_def
      calculation_inputs_def example_inputs_def)

lemma example_dp_sefd: "sefd (dp (example_calculator False)) = 2 * k_B * 100 / (pi * 625)"
proof -
  have same: "example_inputs\<lparr>user_input :=
      example_user_input\<lparr>obs_freq := \<lparr>qvalue = 100, qunit = GHz\<rparr>\<rparr>\<rparr> = example_inputs"
    by (simp add: example_inputs_def example_user_input_def)
  show ?thesis
    using example_sefd_at [of 100] by (simp add: same example_calculator_def Calculator_init_def)
qed

lemma example_dp_eta_s: "eta_s (dp (example_calculator f)) = 1"
  by (simp add: example_calculator_def Calculator_init_def calculate_derived_parameters_def
      Let_def example_models_def)

lemma example_t_int_500_valid:
  "validate example_bounds ''t_int'' \<lparr>qvalue = 500, qunit = Sec\<rparr> = None"
  by (simp add: validate_def example_bounds_def si_def)

lemma sqrt_example: "sqrt (2 * (1 * 1000000000) * (500 * 1)) = (1000000::real)"
  by (rule real_sqrt_unique) simp_all

lemma example_sensitivity_formula:
  "sefd (dp (example_calculator False)) / (eta_s (dp (example_calculator False))
     * sqrt (n_pol (live_user_input (example_calculator False))
          * si (bandwidth (live_user_input (example_calculator False)))
          * si \<lparr>qvalue = 500, qunit = Sec\<rparr>))
   = 2 * k_B * 100 / (pi * 625) / 1000000"
  using sqrt_example
  by (simp add: example_dp_sefd example_dp_eta_s example_live_user_input example_user_input_def
      si_def)

lemma example_sensitivity_small:
  "0 < 2 * k_B * 100 / (pi * 625) / 1000000"
  "2 * k_B * 100 / (pi * 625) / 1000000 / scale mJy < 1"
  "2 * k_B * 100 / (pi * 625) / 1000000 \<le> 1"
proof -
  have p: "2 \<le> pi" by (rule pi_ge_two)
  show "0 < 2 * k_B * 100 / (pi * 625) / 1000000"
    using p by (simp add: k_B_def)
  show "2 * k_B * 100 / (pi * 625) / 1000000 / scale mJy < 1"
    using p by (simp add: k_B_def field_simps)
  show "2 * k_B * 100 / (pi * 625) / 1000000 \<le> 1"
    using p by (simp add: k_B_def field_simps)
qed

text \<open>
  Claim C1, evaluated on the example configuration. \<open>calculate_sensitivity\<close> with an
  integration time of 500 s and \<open>update_calculator\<close> set computes a sensitivity in
  microjansky that passes the range validation of the sensitivity field; it is bound
  to the attribute \<open>sensitivity\<close> of the calculator, and the sensitivity of the
  parameter store is still the 3 mJy of the construction and differs from the result.
\<close>

theorem calculated_sensitivity_not_in_the_store:
  "(case calculate_sensitivity example_bounds (Some \<lparr>qvalue = 500, qunit = Sec\<rparr>) True
           (example_calculator False) of
      Inl e \<Rightarrow> False
    | Inr (r, c') \<Rightarrow>
        validate example_bounds ''sensitivity'' r = None
        \<and> qunit r = uJy
        \<and> self_sensitivity c' = r
        \<and> sensitivity (live_user_input c') = \<lparr>qvalue = 3, qunit = mJy\<rparr>
        \<and> sensitivity (live_user_input c') \<noteq> r)"
proof -
  obtain r c' where call: "calculate_sensitivity example_bounds (Some \<lparr>qvalue = 500, qunit = Sec\<rparr>)
        True (example_calculator False) = Inr (r, c')"
    and r: "r = convenient_sensitivity (2 * k_B * 100 / (pi * 625) / 1000000)"
    and bound: "self_sensitivity c' = r"
    and kept: "sensitivity (live_user_input c') = sensitivity (live_user_input (example_calculator False))"
    using calculate_sensitivity_update [OF example_t_int_500_valid, of "example_calculator False"]
    unfolding example_sensitivity_formula by blast
  have unit: "qunit r = uJy"
    using example_sensitivity_small(2) by (simp add: r qunit_convenient_sensitivity)
  have magnitude: "si r = 2 * k_B * 100 / (pi * 625) / 1000000"
    by (simp only: r si_convenient_sensitivity)
  have valid: "validate example_bounds ''sensitivity'' r = None"
    using example_sensitivity_small(1,3)
    by (simp add: validate_def example_bounds_def unit magnitude)
  have stored: "sensitivity (live_user_input c') = \<lparr>qvalue = 3, qunit = mJy\<rparr>"
    by (simp add: kept example_live_user_input example_user_input_def)
  have "sensitivity (live_user_input c') \<noteq> r"
    using unit stored by auto
  with unit valid stored bound show ?thesis
    by (simp add: call)
qed

lemma calculate_sensitivity_no_update:
  "validate bounds ''t_int'' t = None \<Longrightarrow>
   calculate_sensitivity bounds (Some t) False c
     = Inr (convenient_sensitivity (sensitivity_formula c t), c)"
  by (simp add: calculate_sensitivity_def Let_def)

lemma calculate_t_integration_no_update:
  "validate bounds ''sensitivity'' s = None \<Longrightarrow>
   calculate_t_integration bounds (Some s) False c
     = Inr (convenient_t_int (t_int_formula c s), c)"
  by (simp add: calculate_t_integration_def Let_def)

lemma t_int_formula_self_sensitivity:
  "t_int_formula (c\<lparr>self_sensitivity := v\<rparr>) s = t_int_formula c s"
  by (simp add: t_int_formula_def live_user_input_def)

lemma calculate_t_integration_update:
  "calculate_t_integration bounds (Some s) True c
     = Inr (convenient_t_int (t_int_formula c s),
            c\<lparr>self_sensitivity := s, self_t_int := Some (convenient_t_int (t_int_formula c s))\<rparr>)"
  by (simp add: calculate_t_integration_def Let_def setattr_sensitivity_def
      try_update_setattr_t_int t_int_formula_self_sensitivity)

lemma calculate_t_integration_stored:
  "calculate_t_integration bounds None True c
     = Inr (convenient_t_int (t_int_formula c (self_sensitivity c)),
            c\<lparr>self_t_int := Some (convenient_t_int (t_int_formula c (self_sensitivity c)))\<rparr>)"
  by (simp add: calculate_t_integration_def Let_def try_update_setattr_t_int)

lemma radiometer_round_trip:
  fixes S E k t :: real
  assumes "0 < S" "0 < E" "0 < k" "0 < t"
  shows "(S / (S / (E * sqrt (k * t)) * E)) ^ 2 / k = t"
proof -
  have root: "0 < sqrt (k * t)"
    using assms by simp
  have "S / (S / (E * sqrt (k * t)) * E) = sqrt (k * t)"
    using assms root by (simp add: field_simps)
  then have "(S / (S / (E * sqrt (k * t)) * E)) ^ 2 = k * t"
    using assms by simp
  then show ?thesis
    using assms by simp
qed

text \<open>
  Claim C5. For a configuration with positive SEFD, system efficiency, number of
  polarisations and bandwidth, and a positive integration time that passes validation
  and whose sensitivity passes validation, computing the sensitivity and then the
  integration time from it, without updating the calculator, returns both results,
  leaves the calculator as it was, and gives back the integration time exactly.
\<close>

theorem round_trip:
  assumes "validate bounds ''t_int'' t = None"
    and "validate bounds ''sensitivity'' (convenient_sensitivity (sensitivity_formula c t)) = None"
    and "0 < sefd (dp c)" and "0 < eta_s (dp c)"
    and "0 < n_pol (live_user_input c)" and "0 < si (bandwidth (live_user_input c))"
    and "0 < si t"
  shows "\<exists>s t'. calculate_sensitivity bounds (Some t) False c = Inr (s, c)
           \<and> calculate_t_integration bounds (Some s) False c = Inr (t', c)
           \<and> si t' = si t"
proof -
  let ?s = "convenient_sensitivity (sensitivity_formula c t)"
  let ?t' = "convenient_t_int (t_int_formula c ?s)"
  have k: "0 < n_pol (live_user_input c) * si (bandwidth (live_user_input c))"
    using assms(5,6) by simp
  have "t_int_formula c ?s = si t"
    unfolding t_int_formula_def si_convenient_sensitivity sensitivity_formula_def
    using radiometer_round_trip [OF assms(3) assms(4) k assms(7)]
    by (simp add: mult.assoc)
  then have "si ?t' = si t"
    by (simp add: si_convenient_t_int)
  with calculate_sensitivity_no_update [OF assms(1), of c]
    calculate_t_integration_no_update [OF assms(2)]
  show ?thesis by blast
qed

lemma validate_accepts:
  assumes "dimension_of (qunit r) = declared_dimension (bounds name)"
    and "lower_bound (bounds name) \<le> si r" and "si r \<le> upper_bound (bounds name)"
  shows "validate bounds name r = None"
  using assms by (simp add: validate_def)

lemma validate_rejects_below:
  assumes "dimension_of (qunit r) = declared_dimension (bounds name)"
    and "si r < lower_bound (bounds name)"
  shows "validate bounds name r
     = Some (ValueOutOfRangeException name (si r) (lower_bound (bounds name))
          (upper_bound (bounds name)))"
  using assms by (simp add: validate_def)

lemma example_bounds_sensitivity:
  "declared_dimension (example_bounds ''sensitivity'') = FluxDensity"
  "lower_bound (example_bounds ''sensitivity'') = 0"
  "upper_bound (example_bounds ''sensitivity'') = 1"
  by (simp_all add: example_bounds_def)

lemma example_bounds_t_int:
  "declared_dimension (example_bounds ''t_int'') = Time"
  "lower_bound (example_bounds ''t_int'') = 1"
  "upper_bound (example_bounds ''t_int'') = 10 ^ 9"
  by (simp_all add: example_bounds_def)

lemma example_sensitivity_formula_500:
  "sensitivity_formula (example_calculator False) \<lparr>qvalue = 500, qunit = Sec\<rparr>
     = 2 * k_B * 100 / (pi * 625) / 1000000"
  unfolding sensitivity_formula_def by (rule example_sensitivity_formula)

lemma example_sensitivity_500_valid:
  "validate example_bounds ''sensitivity''
     (convenient_sensitivity (sensitivity_formula (example_calculator False)
        \<lparr>qvalue = 500, qunit = Sec\<rparr>)) = None"
proof -
  define r where "r = convenient_sensitivity (2 * k_B * 100 / (pi * 625) / 1000000)"
  have unit: "qunit r = uJy"
    unfolding r_def using example_sensitivity_small(2) by (simp add: qunit_convenient_sensitivity)
  have magnitude: "si r = 2 * k_B * 100 / (pi * 625) / 1000000"
    unfolding r_def by (simp only: si_convenient_sensitivity)
  have "validate example_bounds ''sensitivity'' r = None"
    using example_sensitivity_small(1,3)
    by (intro validate_accepts) (simp_all only: example_bounds_sensitivity unit magnitude dimension_of.simps)
  then show ?thesis
    by (simp only: example_sensitivity_formula_500 r_def)
qed

lemma example_positive:
  "0 < sefd (dp (example_calculator False))"
  "0 < eta_s (dp (example_calculator False))"
  "0 < n_pol (live_user_input (example_calculator False))"
  "0 < si (bandwidth (live_user_input (example_calculator False)))"
  using k_B_pos
  by (simp_all add: example_dp_sefd example_dp_eta_s example_live_user_input
      example_user_input_def si_def)

text \<open>The round trip on the example configuration, from 500 s.\<close>

theorem round_trip_witness:
  "validate example_bounds ''t_int'' \<lparr>qvalue = 500, qunit = Sec\<rparr> = None
   \<and> validate example_bounds ''sensitivity''
       (convenient_sensitivity (sensitivity_formula (example_calculator False)
          \<lparr>qvalue = 500, qunit = Sec\<rparr>)) = None
   \<and> 0 < sefd (dp (example_calculator False))
   \<and> 0 < eta_s (dp (example_calculator False))
   \<and> 0 < n_pol (live_user_input (example_calculator False))
   \<and> 0 < si (bandwidth (live_user_input (example_calculator False)))
   \<and> 0 < si \<lparr>qvalue = 500, qunit = Sec\<rparr>
   \<and> (\<exists>s t'. calculate_sensitivity example_bounds (Some \<lparr>qvalue = 500, qunit = Sec\<rparr>) False
                (example_calculator False) = Inr (s, example_calculator False)
          \<and> calculate_t_integration example_bounds (Some s) False (example_calculator False)
                = Inr (t', example_calculator False)
          \<and> si t' = 500)"
proof -
  have t_pos: "0 < si \<lparr>qvalue = 500, qunit = Sec\<rparr>"
    by (simp add: si_def)
  have t_value: "si \<lparr>qvalue = 500, qunit = Sec\<rparr> = 500"
    by (simp add: si_def)
  show ?thesis
    using round_trip [OF example_t_int_500_valid example_sensitivity_500_valid
        example_positive t_pos]
      example_t_int_500_valid example_sensitivity_500_valid example_positive t_pos
    unfolding t_value by blast
qed

lemma example_sensitivity_1Jy_valid:
  "validate example_bounds ''sensitivity'' \<lparr>qvalue = 1, qunit = Jy\<rparr> = None"
  by (simp add: validate_def example_bounds_def si_def)

text \<open>
  Neither calculation ever issues a warning, and with \<open>update_calculator\<close> set the
  result is always bound to the attribute of the calculator, whatever the bounds are.
\<close>

lemma calculate_sensitivity_never_warns:
  assumes "calculate_sensitivity bounds t_opt upd c = Inr (r, c')"
  shows "warnings c' = warnings c" and "upd \<Longrightarrow> self_sensitivity c' = r"
  using assms
  by (auto simp: calculate_sensitivity_def Let_def try_update_setattr_sensitivity
      split: option.splits if_splits sum.splits)

lemma calculate_t_integration_never_warns:
  assumes "calculate_t_integration bounds s_opt upd c = Inr (r, c')"
  shows "warnings c' = warnings c" and "upd \<Longrightarrow> self_t_int c' = Some r"
  using assms
  by (auto simp: calculate_t_integration_def Let_def try_update_setattr_t_int
      setattr_sensitivity_def split: option.splits if_splits sum.splits)

lemma example_t_int_formula_1Jy:
  "t_int_formula (example_calculator False) \<lparr>qvalue = 1, qunit = Jy\<rparr>
     = (2 * k_B * 100 / (pi * 625) / (1 / 10 ^ 26)) ^ 2 / (2 * 1000000000)"
  by (simp add: t_int_formula_def example_dp_sefd example_dp_eta_s example_live_user_input
      example_user_input_def si_def)

lemma example_t_int_1Jy_short:
  "(2 * k_B * 100 / (pi * 625) / (1 / 10 ^ 26)) ^ 2 / (2 * 1000000000) < 1"
proof -
  have p: "2 \<le> pi" by (rule pi_ge_two)
  have ratio: "2 * k_B * 100 / (pi * 625) / (1 / 10 ^ 26) = 276129800 / 625000 / pi"
    by (simp add: k_B_def)
  have "276129800 / 625000 / pi \<le> 276129800 / 625000 / 2"
    using p by (simp add: field_simps)
  moreover have "0 \<le> 276129800 / 625000 / pi"
    using p by simp
  ultimately have "(276129800 / 625000 / pi) ^ 2 \<le> (276129800 / 625000 / 2) ^ 2"
    by (rule power_mono)
  moreover have "(276129800 / 625000 / 2 :: real) ^ 2 / (2 * 1000000000) < 1"
    by (simp add: power2_eq_square)
  ultimately have "(276129800 / 625000 / pi) ^ 2 / (2 * 1000000000) < 1"
    by (simp add: field_simps)
  then show ?thesis
    by (simp only: ratio)
qed

text \<open>
  Claim C2, evaluated on the example configuration with the integration time bounded
  below by 1 s. The integration time computed for a sensitivity of 1 Jy is shorter than
  1 s and the validation of the field \<open>t_int\<close> rejects it; \<open>calculate_t_integration\<close>
  with \<open>update_calculator\<close> set binds it to the attribute \<open>t_int\<close> of the calculator
  all the same and issues no warning. The integration time of the parameter store keeps
  the 100 s of the construction.
\<close>

theorem calculated_t_int_out_of_range_is_stored:
  "(case calculate_t_integration example_bounds (Some \<lparr>qvalue = 1, qunit = Jy\<rparr>) True
           (example_calculator False) of
      Inl e \<Rightarrow> False
    | Inr (r, c') \<Rightarrow>
        si r < 1
        \<and> validate example_bounds ''t_int'' r
             = Some (ValueOutOfRangeException ''t_int'' (si r) 1 (10 ^ 9))
        \<and> self_t_int c' = Some r
        \<and> warnings c' = []
        \<and> t_int (live_user_input c') = \<lparr>qvalue = 100, qunit = Sec\<rparr>)"
proof -
  define r where "r = convenient_t_int (t_int_formula (example_calculator False)
      \<lparr>qvalue = 1, qunit = Jy\<rparr>)"
  have magnitude: "si r = (2 * k_B * 100 / (pi * 625) / (1 / 10 ^ 26)) ^ 2 / (2 * 1000000000)"
    unfolding r_def by (simp only: si_convenient_t_int example_t_int_formula_1Jy)
  have short: "si r < 1"
    using example_t_int_1Jy_short by (simp only: magnitude)
  have unit: "qunit r = Sec"
    unfolding r_def example_t_int_formula_1Jy
    using example_t_int_1Jy_short by (simp add: qunit_convenient_t_int)
  have rejected: "validate example_bounds ''t_int'' r
      = Some (ValueOutOfRangeException ''t_int'' (si r) 1 (10 ^ 9))"
    using validate_rejects_below [of r example_bounds "''t_int''"] short
    by (simp only: example_bounds_t_int unit dimension_of.simps)
  have stored: "t_int (live_user_input ((example_calculator False)
        \<lparr>self_sensitivity := \<lparr>qvalue = 1, qunit = Jy\<rparr>, self_t_int := Some r\<rparr>))
      = \<lparr>qvalue = 100, qunit = Sec\<rparr>"
    using example_live_user_input [of False]
    by (simp add: live_user_input_def example_user_input_def)
  have quiet: "warnings (example_calculator False) = []"
    by (simp add: example_calculator_def Calculator_init_def)
  have call: "calculate_t_integration example_bounds (Some \<lparr>qvalue = 1, qunit = Jy\<rparr>) True
        (example_calculator False)
      = Inr (r, (example_calculator False)
          \<lparr>self_sensitivity := \<lparr>qvalue = 1, qunit = Jy\<rparr>, self_t_int := Some r\<rparr>)"
    by (simp only: calculate_t_integration_update r_def)
  show ?thesis
    unfolding call using short rejected stored quiet by simp
qed

subsection \<open>The unit of the result\<close>

lemma set_t_int_keeps_formula:
  assumes "set_t_int bounds t' (config c) = Inr cfg"
  shows "sensitivity_formula (c\<lparr>config := cfg\<rparr>) t = sensitivity_formula c t"
proof -
  have "validate bounds ''t_int'' t' = None"
    using assms by (simp add: set_t_int_def validate_value_def split: option.splits)
  then have "cfg = (config c)\<lparr>store := (store (config c))(calculation_inputs_ref (config c) :=
      (calculation_inputs (config c))\<lparr>user_input :=
        (user_input (calculation_inputs (config c)))\<lparr>t_int := t'\<rparr>\<rparr>)\<rparr>"
    using assms by (simp add: set_t_int_valid)
  then show ?thesis
    by (simp add: sensitivity_formula_def live_user_input_def calculation_inputs_def)
qed

lemma calculate_sensitivity_returns:
  assumes "calculate_sensitivity bounds t_opt upd c = Inr (r, c')"
  shows "r = convenient_sensitivity
      (sensitivity_formula c (case t_opt of Some t \<Rightarrow> t | None \<Rightarrow> t_int (live_user_input c)))"
  using assms
  by (auto simp: calculate_sensitivity_def Let_def try_update_setattr_sensitivity
      set_t_int_keeps_formula split: option.splits if_splits sum.splits)

lemma calculate_t_integration_returns:
  assumes "calculate_t_integration bounds s_opt upd c = Inr (r, c')"
  shows "r = convenient_t_int
      (t_int_formula c (case s_opt of Some s \<Rightarrow> s | None \<Rightarrow> self_sensitivity c))"
  using assms
  by (auto simp: calculate_t_integration_def Let_def try_update_setattr_t_int
      setattr_sensitivity_def t_int_formula_self_sensitivity
      split: option.splits if_splits sum.splits)

lemma convenient_sensitivity_tier:
  "convenient_sensitivity x
     = from_si (if x / scale mJy < 1 then uJy else if x / scale mJy < 1000 then mJy else Jy) x"
  by (simp add: convenient_sensitivity_def Let_def)

lemma convenient_t_int_tier:
  "convenient_t_int y
     = from_si (if y / scale Sec < 60 then Sec else if y / scale Sec < 3600 then Minute else Hour) y"
  by (simp add: convenient_t_int_def Let_def)

text \<open>
  Claim C6. The quantity that \<open>calculate_sensitivity\<close> returns is the sensitivity it
  computed from the integration time it was given (or the stored one), expressed in
  microjansky when that value is below 1 mJy, in millijansky from 1 mJy up to but
  excluding 1000 mJy, and in jansky from 1000 mJy on. The quantity that
  \<open>calculate_t_integration\<close> returns is the integration time it computed from the
  sensitivity it was given (or the one of the calculator), expressed in seconds below
  60 s, in minutes from 60 s up to but excluding 3600 s, and in hours from 3600 s on.
\<close>

theorem unit_tiering:
  assumes "calculate_sensitivity bounds t_opt upd c = Inr (r, c')"
    and "calculate_t_integration bounds s_opt upd' d = Inr (r', d')"
  shows "(let x = sensitivity_formula c
                    (case t_opt of Some t \<Rightarrow> t | None \<Rightarrow> t_int (live_user_input c));
              in_mJy = x / scale mJy
          in r = from_si (if in_mJy < 1 then uJy else if in_mJy < 1000 then mJy else Jy) x)
       \<and> (let y = t_int_formula d
                    (case s_opt of Some s \<Rightarrow> s | None \<Rightarrow> self_sensitivity d);
              in_seconds = y / scale Sec
          in r' = from_si (if in_seconds < 60 then Sec
                           else if in_seconds < 3600 then Minute else Hour) y)"
  unfolding Let_def
  using calculate_sensitivity_returns [OF assms(1)] calculate_t_integration_returns [OF assms(2)]
  by (simp only: convenient_sensitivity_tier convenient_t_int_tier)

lemma example_t_int_5_valid:
  "validate example_bounds ''t_int'' \<lparr>qvalue = 5, qunit = Sec\<rparr> = None"
  by (simp add: validate_def example_bounds_def si_def)

lemma example_sensitivity_03mJy_valid:
  "validate example_bounds ''sensitivity'' \<lparr>qvalue = 3 / 10, qunit = mJy\<rparr> = None"
  by (simp add: validate_def example_bounds_def si_def)

lemma example_sensitivity_formula_5:
  "sensitivity_formula (example_calculator False) \<lparr>qvalue = 5, qunit = Sec\<rparr>
     = 2 * k_B * 100 / (pi * 625) / 100000"
proof -
  have root: "sqrt (2 * (1 * 1000000000) * (5 * 1)) = (100000::real)"
    by (rule real_sqrt_unique) simp_all
  show ?thesis
    using root
    by (simp add: sensitivity_formula_def example_dp_sefd example_dp_eta_s
        example_live_user_input example_user_input_def si_def)
qed

lemma example_sensitivity_5_tier:
  "\<not> 2 * k_B * 100 / (pi * 625) / 100000 / scale mJy < 1"
  "2 * k_B * 100 / (pi * 625) / 100000 / scale mJy < 1000"
proof -
  have p: "2 \<le> pi" "pi < 4"
    by (rule pi_ge_two, rule pi_less_4)
  show "\<not> 2 * k_B * 100 / (pi * 625) / 100000 / scale mJy < 1"
    using p by (simp add: k_B_def field_simps)
  show "2 * k_B * 100 / (pi * 625) / 100000 / scale mJy < 1000"
    using p by (simp add: k_B_def field_simps)
qed

lemma example_t_int_formula_03mJy:
  "t_int_formula (example_calculator False) \<lparr>qvalue = 3 / 10, qunit = mJy\<rparr>
     = (2761298000 / 1875 / pi) ^ 2 / 2000000000"
  by (simp add: t_int_formula_def example_dp_sefd example_dp_eta_s example_live_user_input
      example_user_input_def si_def k_B_def)

lemma example_t_int_03mJy_tier:
  "\<not> (2761298000 / 1875 / pi) ^ 2 / 2000000000 / scale Sec < 60"
  "(2761298000 / 1875 / pi) ^ 2 / 2000000000 / scale Sec < 3600"
proof -
  have p: "2 \<le> pi" "pi < 4"
    by (rule pi_ge_two, rule pi_less_4)
  have below: "2761298000 / 1875 / 4 \<le> 2761298000 / 1875 / pi"
    using p by (simp add: field_simps)
  have above: "2761298000 / 1875 / pi \<le> 2761298000 / 1875 / 2"
    using p by (simp add: field_simps)
  have "(2761298000 / 1875 / 4 :: real) ^ 2 \<le> (2761298000 / 1875 / pi) ^ 2"
    using below by (intro power_mono) simp_all
  moreover have "60 \<le> (2761298000 / 1875 / 4 :: real) ^ 2 / 2000000000"
    by (simp add: power2_eq_square)
  ultimately have "60 \<le> (2761298000 / 1875 / pi) ^ 2 / 2000000000"
    by (simp add: field_simps)
  then show "\<not> (2761298000 / 1875 / pi) ^ 2 / 2000000000 / scale Sec < 60"
    by simp
  have "0 \<le> 2761298000 / 1875 / pi"
    using p by simp
  with above have "(2761298000 / 1875 / pi) ^ 2 \<le> (2761298000 / 1875 / 2 :: real) ^ 2"
    by (intro power_mono)
  moreover have "(2761298000 / 1875 / 2 :: real) ^ 2 / 2000000000 < 3600"
    by (simp add: power2_eq_square)
  ultimately have "(2761298000 / 1875 / pi) ^ 2 / 2000000000 < 3600"
    by (simp add: field_simps)
  then show "(2761298000 / 1875 / pi) ^ 2 / 2000000000 / scale Sec < 3600"
    by simp
qed

lemma example_t_int_1Jy_tier:
  "(2 * k_B * 100 / (pi * 625) / (1 / 10 ^ 26)) ^ 2 / (2 * 1000000000) / scale Sec < 60"
  using example_t_int_1Jy_short by simp

text \<open>
  The unit rule on the example configuration: the sensitivity is returned in
  microjansky for 500 s and in millijansky for 5 s, the integration time in seconds for
  1 Jy and in minutes for 0.3 mJy.
\<close>

theorem unit_tiering_witness:
  "calculate_sensitivity example_bounds (Some \<lparr>qvalue = 500, qunit = Sec\<rparr>) False
       (example_calculator False)
     = Inr (from_si uJy (2 * k_B * 100 / (pi * 625) / 1000000), example_calculator False)
   \<and> calculate_sensitivity example_bounds (Some \<lparr>qvalue = 5, qunit = Sec\<rparr>) False
       (example_calculator False)
     = Inr (from_si mJy (2 * k_B * 100 / (pi * 625) / 100000), example_calculator False)
   \<and> calculate_t_integration example_bounds (Some \<lparr>qvalue = 1, qunit = Jy\<rparr>) False
       (example_calculator False)
     = Inr (from_si Sec ((2 * k_B * 100 / (pi * 625) / (1 / 10 ^ 26)) ^ 2 / (2 * 1000000000)),
            example_calculator False)
   \<and> calculate_t_integration example_bounds (Some \<lparr>qvalue = 3 / 10, qunit = mJy\<rparr>) False
       (example_calculator False)
     = Inr (from_si Minute ((2761298000 / 1875 / pi) ^ 2 / 2000000000), example_calculator False)"
proof -
  let ?c = "example_calculator False"
  have s1: "calculate_sensitivity example_bounds (Some \<lparr>qvalue = 500, qunit = Sec\<rparr>) False ?c
      = Inr (convenient_sensitivity (sensitivity_formula ?c \<lparr>qvalue = 500, qunit = Sec\<rparr>), ?c)"
    by (rule calculate_sensitivity_no_update [OF example_t_int_500_valid])
  have s2: "calculate_sensitivity example_bounds (Some \<lparr>qvalue = 5, qunit = Sec\<rparr>) False ?c
      = Inr (convenient_sensitivity (sensitivity_formula ?c \<lparr>qvalue = 5, qunit = Sec\<rparr>), ?c)"
    by (rule calculate_sensitivity_no_update [OF example_t_int_5_valid])
  have t1: "calculate_t_integration example_bounds (Some \<lparr>qvalue = 1, qunit = Jy\<rparr>) False ?c
      = Inr (convenient_t_int (t_int_formula ?c \<lparr>qvalue = 1, qunit = Jy\<rparr>), ?c)"
    by (rule calculate_t_integration_no_update [OF example_sensitivity_1Jy_valid])
  have t2: "calculate_t_integration example_bounds (Some \<lparr>qvalue = 3 / 10, qunit = mJy\<rparr>) False ?c
      = Inr (convenient_t_int (t_int_formula ?c \<lparr>qvalue = 3 / 10, qunit = mJy\<rparr>), ?c)"
    by (rule calculate_t_integration_no_update [OF example_sensitivity_03mJy_valid])
  have first: "convenient_sensitivity (sensitivity_formula ?c \<lparr>qvalue = 500, qunit = Sec\<rparr>)
        = from_si uJy (2 * k_B * 100 / (pi * 625) / 1000000)
      \<and> convenient_t_int (t_int_formula ?c \<lparr>qvalue = 1, qunit = Jy\<rparr>)
        = from_si Sec ((2 * k_B * 100 / (pi * 625) / (1 / 10 ^ 26)) ^ 2 / (2 * 1000000000))"
    using unit_tiering [OF s1 t1] example_sensitivity_small(2) example_t_int_1Jy_tier
    unfolding Let_def option.case example_sensitivity_formula_500 example_t_int_formula_1Jy
    by (simp only: if_True)
  have second: "convenient_sensitivity (sensitivity_formula ?c \<lparr>qvalue = 5, qunit = Sec\<rparr>)
        = from_si mJy (2 * k_B * 100 / (pi * 625) / 100000)
      \<and> convenient_t_int (t_int_formula ?c \<lparr>qvalue = 3 / 10, qunit = mJy\<rparr>)
        = from_si Minute ((2761298000 / 1875 / pi) ^ 2 / 2000000000)"
    using unit_tiering [OF s2 t2] example_sensitivity_5_tier example_t_int_03mJy_tier
    unfolding Let_def option.case example_sensitivity_formula_5 example_t_int_formula_03mJy
    by (simp only: if_True if_False)
  show ?thesis
    using first second by (simp only: s1 s2 t1 t2)
qed

section \<open>The SEFD over narrow channels\<close>

lemma obs_band_list_Cons2: "obs_band_list (x # y # zs) = (y - x) # obs_band_list (y # zs)"
  by (simp add: obs_band_list_def)

lemma channel_centres_Cons2:
  "channel_centres (x # y # zs) = ((y + x) * 0.50) # channel_centres (y # zs)"
  by (simp add: channel_centres_def)

lemma obs_band_list_single: "obs_band_list [x] = []"
  by (simp add: obs_band_list_def)

lemma channel_centres_single: "channel_centres [x] = []"
  by (simp add: channel_centres_def)

lemma length_obs_band_list: "length (obs_band_list fs) = length fs - 1"
  by (simp add: obs_band_list_def)

lemma length_channel_centres: "length (channel_centres fs) = length fs - 1"
  by (simp add: channel_centres_def)

lemma obs_band_list_nonneg: "sorted fs \<Longrightarrow> b \<in> set (obs_band_list fs) \<Longrightarrow> 0 \<le> b"
proof (induction fs rule: induct_list012)
  case 1
  then show ?case by (simp add: obs_band_list_def)
next
  case (2 x)
  then show ?case by (simp add: obs_band_list_single)
next
  case (3 x y zs)
  then show ?case by (auto simp: obs_band_list_Cons2)
qed

lemma sum_obs_band_list: "fs \<noteq> [] \<Longrightarrow> sum_list (obs_band_list fs) = last fs - hd fs"
proof (induction fs rule: induct_list012)
  case 1
  then show ?case by simp
next
  case (2 x)
  then show ?case by (simp add: obs_band_list_single)
next
  case (3 x y zs)
  then show ?case by (simp add: obs_band_list_Cons2)
qed

lemma sorted_obs_freq_list:
  assumes "sorted (tau_atm_table_freqs M)" and "obs_freq_low inp \<le> obs_freq_upp inp"
  shows "sorted (obs_freq_list M inp)"
  using assms by (auto simp: obs_freq_list_def sorted_append intro: sorted_wrt_filter)

lemma band_edges:
  "(obs_freq_upp inp - obs_freq_low inp) * scale GHz = si (bandwidth (user_input inp))"
  by (simp add: obs_freq_upp_def obs_freq_low_def field_simps)

lemma weighted_sum_bounds:
  fixes bs ss :: "real list"
  assumes "length bs = length ss"
    and "\<And>b. b \<in> set bs \<Longrightarrow> 0 \<le> b"
    and "\<And>s. s \<in> set ss \<Longrightarrow> lo \<le> s \<and> s \<le> hi"
    and "0 < lo"
  shows "sum_list bs / hi ^ 2 \<le> sum_list (map2 (\<lambda>b s. b / s ^ 2) bs ss)
       \<and> sum_list (map2 (\<lambda>b s. b / s ^ 2) bs ss) \<le> sum_list bs / lo ^ 2"
  using assms
proof (induction bs ss rule: list_induct2)
  case Nil
  then show ?case by simp
next
  case (Cons b bs s ss)
  have b: "0 \<le> b" using Cons.prems(1) by simp
  have s: "lo \<le> s" "s \<le> hi" using Cons.prems(2) by simp_all
  have pos: "0 < s" "0 < hi" using s Cons.prems(3) by linarith+
  have "s ^ 2 \<le> hi ^ 2" using s pos by (simp add: power_mono)
  then have upper: "b / hi ^ 2 \<le> b / s ^ 2"
    using b pos by (simp add: frac_le)
  have "lo ^ 2 \<le> s ^ 2" using s Cons.prems(3) by (simp add: power_mono)
  then have lower: "b / s ^ 2 \<le> b / lo ^ 2"
    using b Cons.prems(3) by (simp add: frac_le)
  have rest: "sum_list bs / hi ^ 2 \<le> sum_list (map2 (\<lambda>b s. b / s ^ 2) bs ss)
       \<and> sum_list (map2 (\<lambda>b s. b / s ^ 2) bs ss) \<le> sum_list bs / lo ^ 2"
    using Cons.IH Cons.prems by simp
  show ?case
    using upper lower rest by (simp add: add_divide_distrib)
qed

lemma effective_sefd_bounds:
  fixes bs ss :: "real list"
  assumes "length bs = length ss"
    and "\<And>b. b \<in> set bs \<Longrightarrow> 0 \<le> b"
    and "\<And>s. s \<in> set ss \<Longrightarrow> lo \<le> s \<and> s \<le> hi"
    and "0 < lo" and "lo \<le> hi" and "0 < sum_list bs"
  shows "lo \<le> effective_sefd (sum_list bs) bs ss \<and> effective_sefd (sum_list bs) bs ss \<le> hi"
proof -
  let ?B = "sum_list bs"
  let ?S = "sum_list (map2 (\<lambda>b s. b / s ^ 2) bs ss)"
  have hi: "0 < hi" using assms(4,5) by linarith
  have bounds: "?B / hi ^ 2 \<le> ?S" "?S \<le> ?B / lo ^ 2"
    using weighted_sum_bounds [OF assms(1-4)] by simp_all
  have S_pos: "0 < ?S"
    using bounds(1) assms(6) hi by (smt (verit) divide_pos_pos zero_less_power)
  have "?B / ?S \<le> hi ^ 2"
    using bounds(1) S_pos hi by (simp add: field_simps)
  then have "sqrt (?B / ?S) \<le> sqrt (hi ^ 2)"
    by (rule real_sqrt_le_mono)
  then have upper: "sqrt (?B / ?S) \<le> hi"
    using hi by simp
  have "lo ^ 2 \<le> ?B / ?S"
    using bounds(2) S_pos assms(4) by (simp add: field_simps)
  then have "sqrt (lo ^ 2) \<le> sqrt (?B / ?S)"
    by (rule real_sqrt_le_mono)
  then have lower: "lo \<le> sqrt (?B / ?S)"
    using assms(4) by simp
  show ?thesis
    using lower upper by (simp add: effective_sefd_def)
qed

lemma length_obs_freq_list: "1 < length (obs_freq_list M inp)"
  by (simp add: obs_freq_list_def)

lemma hd_last_obs_freq_list:
  "hd (obs_freq_list M inp) = obs_freq_low inp" "last (obs_freq_list M inp) = obs_freq_upp inp"
  by (simp_all add: obs_freq_list_def)

lemma length_channel_sefds:
  "length (channel_sefds M inp e) = length (obs_freq_list M inp) - 1"
  by (simp add: channel_sefds_def length_channel_centres)

lemma finetune_sefd:
  "sefd (calculate_derived_parameters M True inp)
     = effective_sefd (si (bandwidth (user_input inp)))
         (map (\<lambda>b. b * scale GHz) (obs_band_list (obs_freq_list M inp)))
         (channel_sefds M inp (eta_a (calculate_derived_parameters M True inp)))"
  using length_obs_freq_list [of M inp]
  by (simp add: calculate_derived_parameters_def Let_def)

lemma sum_scaled_bands:
  "sum_list (map (\<lambda>b. b * scale GHz) (obs_band_list (obs_freq_list M inp)))
     = si (bandwidth (user_input inp))"
proof -
  have "obs_freq_list M inp \<noteq> []"
    by (simp add: obs_freq_list_def)
  then have "sum_list (obs_band_list (obs_freq_list M inp)) = obs_freq_upp inp - obs_freq_low inp"
    by (simp add: sum_obs_band_list hd_last_obs_freq_list)
  then show ?thesis
    using band_edges [of inp] by (simp add: sum_list_mult_const)
qed

lemma finetune_sefd_bounds:
  assumes "sorted (tau_atm_table_freqs M)"
    and "0 < si (bandwidth (user_input inp))"
    and "\<forall>s \<in> set (channel_sefds M inp (eta_a (calculate_derived_parameters M True inp))). 0 < s"
  shows "sefd (calculate_derived_parameters M True inp)
       = sqrt (si (bandwidth (user_input inp))
           / sum_list (map2 (\<lambda>b s. b / s ^ 2)
               (map (\<lambda>b. b * scale GHz) (obs_band_list (obs_freq_list M inp)))
               (channel_sefds M inp (eta_a (calculate_derived_parameters M True inp)))))
     \<and> sum_list (map (\<lambda>b. b * scale GHz) (obs_band_list (obs_freq_list M inp)))
       = si (bandwidth (user_input inp))
     \<and> Min (set (channel_sefds M inp (eta_a (calculate_derived_parameters M True inp))))
       \<le> sefd (calculate_derived_parameters M True inp)
     \<and> sefd (calculate_derived_parameters M True inp)
       \<le> Max (set (channel_sefds M inp (eta_a (calculate_derived_parameters M True inp))))"
proof -
  let ?fs = "obs_freq_list M inp"
  let ?bs = "map (\<lambda>b. b * scale GHz) (obs_band_list ?fs)"
  let ?ss = "channel_sefds M inp (eta_a (calculate_derived_parameters M True inp))"
  have formula: "sefd (calculate_derived_parameters M True inp)
      = effective_sefd (sum_list ?bs) ?bs ?ss"
    by (simp only: finetune_sefd sum_scaled_bands)
  have lengths: "length ?bs = length ?ss"
    by (simp add: length_obs_band_list length_channel_sefds)
  have "obs_freq_low inp \<le> obs_freq_upp inp"
    using assms(2) by (simp add: obs_freq_low_def obs_freq_upp_def field_simps)
  then have "sorted ?fs"
    using assms(1) by (rule sorted_obs_freq_list [rotated])
  then have nonneg: "\<And>b. b \<in> set ?bs \<Longrightarrow> 0 \<le> b"
    by (auto dest: obs_band_list_nonneg)
  have nonempty: "set ?ss \<noteq> {}"
    using length_obs_freq_list [of M inp] length_channel_sefds [of M inp]
    by (metis length_0_conv less_numeral_extra(3) set_empty zero_less_diff)
  have within: "\<And>s. s \<in> set ?ss \<Longrightarrow> Min (set ?ss) \<le> s \<and> s \<le> Max (set ?ss)"
    by simp
  have "Min (set ?ss) \<in> set ?ss"
    using nonempty by (intro Min_in) simp_all
  then have low_pos: "0 < Min (set ?ss)"
    using assms(3) by blast
  have ordered: "Min (set ?ss) \<le> Max (set ?ss)"
    using nonempty by simp
  have total: "0 < sum_list ?bs"
    using assms(2) by (simp only: sum_scaled_bands)
  have "Min (set ?ss) \<le> effective_sefd (sum_list ?bs) ?bs ?ss
      \<and> effective_sefd (sum_list ?bs) ?bs ?ss \<le> Max (set ?ss)"
    using lengths nonneg within low_pos ordered total by (rule effective_sefd_bounds)
  then have between: "Min (set ?ss) \<le> sefd (calculate_derived_parameters M True inp)
      \<and> sefd (calculate_derived_parameters M True inp) \<le> Max (set ?ss)"
    by (simp only: formula)
  have "sefd (calculate_derived_parameters M True inp)
      = sqrt (si (bandwidth (user_input inp)) / sum_list (map2 (\<lambda>b s. b / s ^ 2) ?bs ?ss))"
    by (simp only: finetune_sefd effective_sefd_def)
  with between sum_scaled_bands [of M inp] show ?thesis
    by blast
qed

lemma example_band:
  "obs_freq_low example_inputs = 995 / 10" "obs_freq_upp example_inputs = 1005 / 10"
  by (simp_all add: obs_freq_low_def obs_freq_upp_def example_inputs_def example_user_input_def
      si_def)

lemma example_obs_freq_list: "obs_freq_list example_models example_inputs = [995 / 10, 100, 1005 / 10]"
  by (simp add: obs_freq_list_def example_band) (simp add: example_models_def)

lemma example_eta_a: "eta_a (calculate_derived_parameters example_models ft inp) = 1"
  by (simp add: calculate_derived_parameters_def Let_def example_models_def)

lemma example_channel_sefds:
  "channel_sefds example_models example_inputs 1
     = [2 * k_B * 150 / (pi * 625), 2 * k_B * 150 / (pi * 625)]"
  by (simp add: channel_sefds_def example_obs_freq_list channel_centres_Cons2
      channel_centres_single channel_T_sys_def calculate_sefd_def Let_def)
    (simp add: example_models_def example_inputs_def example_instrument_setup_def si_def)

lemma example_obs_band_list:
  "map (\<lambda>b. b * scale GHz) (obs_band_list (obs_freq_list example_models example_inputs))
     = [500000000, 500000000]"
  by (simp add: example_obs_freq_list obs_band_list_Cons2 obs_band_list_single)

lemma two_equal_channels:
  fixes a :: real
  assumes "0 < a"
  shows "effective_sefd 1000000000 [500000000, 500000000] [a, a] = a"
proof -
  have "500000000 / a ^ 2 + 500000000 / a ^ 2 = 1000000000 / a ^ 2"
    by simp
  then have "1000000000 / (500000000 / a ^ 2 + 500000000 / a ^ 2) = a ^ 2"
    using assms by simp
  then show ?thesis
    using assms by (simp add: effective_sefd_def)
qed

lemma example_finetune_sefd:
  "sefd (calculate_derived_parameters example_models True example_inputs)
     = 2 * k_B * 150 / (pi * 625)"
proof -
  have pos: "0 < 2 * k_B * 150 / (pi * 625)"
    using k_B_pos by simp
  have width: "si (bandwidth (user_input example_inputs)) = 1000000000"
    by (simp add: example_inputs_def example_user_input_def si_def)
  show ?thesis
    by (simp only: finetune_sefd example_eta_a example_channel_sefds example_obs_band_list
        width two_equal_channels [OF pos])
qed

lemma example_simple_sefd:
  "sefd (calculate_derived_parameters example_models False example_inputs)
     = 2 * k_B * 100 / (pi * 625)"
  using example_dp_sefd by (simp add: example_calculator_def Calculator_init_def)

text \<open>
  Claim C7 as stated fails on the example configuration, whose band from 99.5 to
  100.5 GHz contains the single grid point 100 GHz: finetune mode does not fall back, it
  combines the two channels on either side of the grid point (system temperature 150 K
  at both centres), while simple mode evaluates the band centre (100 K).
\<close>

theorem one_inner_grid_point_is_not_simple_mode:
  "length (filter (\<lambda>f. f > obs_freq_low example_inputs \<and> f < obs_freq_upp example_inputs)
       (tau_atm_table_freqs example_models)) < 2
   \<and> sefd (calculate_derived_parameters example_models True example_inputs)
       = 2 * k_B * 150 / (pi * 625)
   \<and> sefd (calculate_derived_parameters example_models False example_inputs)
       = 2 * k_B * 100 / (pi * 625)
   \<and> sefd (calculate_derived_parameters example_models True example_inputs)
       \<noteq> sefd (calculate_derived_parameters example_models False example_inputs)"
proof -
  have inner: "filter (\<lambda>f. f > obs_freq_low example_inputs \<and> f < obs_freq_upp example_inputs)
      (tau_atm_table_freqs example_models) = [100]"
    by (simp add: example_band) (simp add: example_models_def)
  have differ: "2 * k_B * 150 / (pi * 625) \<noteq> 2 * k_B * 100 / (pi * 625)"
    using k_B_pos by simp
  show ?thesis
    using differ by (simp add: inner example_finetune_sefd example_simple_sefd)
qed

lemma band_centre:
  "(obs_freq_upp inp + obs_freq_low inp) * 0.50 = si (obs_freq (user_input inp)) / scale GHz"
  by (simp add: obs_freq_upp_def obs_freq_low_def field_simps)

lemma simple_sefd:
  "sefd (calculate_derived_parameters M False inp)
     = calculate_sefd (instrument_setup inp)
         (channel_T_sys M inp (si (obs_freq (user_input inp)) / scale GHz))
         (eta_a (calculate_derived_parameters M True inp))"
  by (simp add: calculate_derived_parameters_def Let_def channel_T_sys_def)

lemma one_channel:
  fixes B a :: real
  assumes "0 < B" and "0 < a"
  shows "effective_sefd B [B] [a] = a"
proof -
  have "B / (B / a ^ 2) = a ^ 2"
    using assms by simp
  then show ?thesis
    using assms by (simp add: effective_sefd_def)
qed

text \<open>
  Claim C7, as amended. In finetune mode, when no grid point of the atmosphere table
  lies strictly inside the band, and the bandwidth and the simple-mode SEFD are
  positive, the computed SEFD equals the simple-mode SEFD at the band centre: the padded
  list consists of the two band edges, and the sum runs over the single channel between
  them.
\<close>

theorem finetune_without_inner_grid_point:
  assumes "filter (\<lambda>f. f > obs_freq_low inp \<and> f < obs_freq_upp inp) (tau_atm_table_freqs M) = []"
    and "0 < si (bandwidth (user_input inp))"
    and "0 < sefd (calculate_derived_parameters M False inp)"
  shows "sefd (calculate_derived_parameters M True inp)
       = sefd (calculate_derived_parameters M False inp)"
proof -
  let ?a = "sefd (calculate_derived_parameters M False inp)"
  have edges: "obs_freq_list M inp = [obs_freq_low inp, obs_freq_upp inp]"
    by (simp add: obs_freq_list_def assms(1))
  have bands: "map (\<lambda>b. b * scale GHz) (obs_band_list (obs_freq_list M inp))
      = [si (bandwidth (user_input inp))]"
    using band_edges [of inp]
    by (simp only: edges obs_band_list_Cons2 obs_band_list_single list.map)
  have centres: "channel_centres (obs_freq_list M inp) = [si (obs_freq (user_input inp)) / scale GHz]"
    by (simp only: edges channel_centres_Cons2 channel_centres_single band_centre)
  have channels: "channel_sefds M inp (eta_a (calculate_derived_parameters M True inp)) = [?a]"
    by (simp only: channel_sefds_def centres simple_sefd list.map)
  show ?thesis
    by (simp only: finetune_sefd [of M inp] bands channels one_channel [OF assms(2) assms(3)])
qed

text \<open>
  The amended claim C7 with the example observation moved to 101 GHz, whose band from
  100.5 to 101.5 GHz contains no grid point.
\<close>

theorem finetune_without_inner_grid_point_witness:
  "filter (\<lambda>f. f > obs_freq_low shifted_inputs \<and> f < obs_freq_upp shifted_inputs)
       (tau_atm_table_freqs example_models) = []
   \<and> 0 < si (bandwidth (user_input shifted_inputs))
   \<and> 0 < sefd (calculate_derived_parameters example_models False shifted_inputs)
   \<and> sefd (calculate_derived_parameters example_models True shifted_inputs)
       = sefd (calculate_derived_parameters example_models False shifted_inputs)"
proof -
  have band: "obs_freq_low shifted_inputs = 1005 / 10" "obs_freq_upp shifted_inputs = 1015 / 10"
    by (simp_all add: obs_freq_low_def obs_freq_upp_def shifted_inputs_def example_inputs_def
        example_user_input_def si_def)
  have inner: "filter (\<lambda>f. f > obs_freq_low shifted_inputs \<and> f < obs_freq_upp shifted_inputs)
      (tau_atm_table_freqs example_models) = []"
    by (simp add: band) (simp add: example_models_def)
  have width: "0 < si (bandwidth (user_input shifted_inputs))"
    by (simp add: shifted_inputs_def example_inputs_def example_user_input_def si_def)
  have positive: "0 < sefd (calculate_derived_parameters example_models False shifted_inputs)"
    unfolding shifted_inputs_def example_sefd_at using k_B_pos by simp
  show ?thesis
    using finetune_without_inner_grid_point [OF inner width positive] inner width positive
    by blast
qed

subsection \<open>The sum over the sub-channels\<close>

lemma sum_list_map2_nth:
  fixes f :: "'a \<Rightarrow> 'b \<Rightarrow> real"
  assumes "length xs = length ys"
  shows "sum_list (map2 f xs ys) = (\<Sum>i<length xs. f (xs ! i) (ys ! i))"
  using assms
proof (induction xs ys rule: list_induct2)
  case Nil
  show ?case by simp
next
  case (Cons x xs y ys)
  have "(\<Sum>i<Suc (length xs). f ((x # xs) ! i) ((y # ys) ! i))
      = f x y + (\<Sum>i<length xs. f (xs ! i) (ys ! i))"
    by (subst sum.lessThan_Suc_shift) simp
  with Cons.IH show ?case by simp
qed

lemma nth_obs_band_list:
  assumes "i < length fs - 1"
  shows "obs_band_list fs ! i = fs ! Suc i - fs ! i"
  using assms by (simp add: obs_band_list_def nth_tl nth_butlast)

lemma nth_channel_centres:
  assumes "i < length fs - 1"
  shows "channel_centres fs ! i = (fs ! Suc i + fs ! i) / 2"
  using assms by (simp add: channel_centres_def nth_tl nth_butlast)

lemma nth_scaled_bands:
  assumes "i < sub_channels M inp"
  shows "map (\<lambda>b. b * scale GHz) (obs_band_list (obs_freq_list M inp)) ! i
       = sub_channel_width M inp i"
  using assms
  by (simp add: sub_channels_def sub_channel_width_def length_obs_band_list nth_obs_band_list)

lemma nth_channel_sefds:
  assumes "i < sub_channels M inp"
  shows "channel_sefds M inp (eta_a (calculate_derived_parameters M True inp)) ! i
       = sub_channel_sefd M inp i"
  using assms
  by (simp add: sub_channels_def sub_channel_sefd_def channel_sefds_def length_channel_centres
      nth_channel_centres)

lemma set_channel_sefds:
  "set (channel_sefds M inp (eta_a (calculate_derived_parameters M True inp)))
     = sub_channel_sefd M inp ` {..<sub_channels M inp}"
proof -
  let ?ss = "channel_sefds M inp (eta_a (calculate_derived_parameters M True inp))"
  have len: "length ?ss = sub_channels M inp"
    by (simp add: length_channel_sefds sub_channels_def)
  have "set ?ss = (\<lambda>i. ?ss ! i) ` {..<length ?ss}"
    by (auto simp: set_conv_nth)
  also have "\<dots> = sub_channel_sefd M inp ` {..<sub_channels M inp}"
    unfolding len by (rule image_cong) (simp_all add: nth_channel_sefds)
  finally show ?thesis .
qed

lemma finetune_sum_by_channel:
  "sum_list (map2 (\<lambda>b s. b / s ^ 2)
       (map (\<lambda>b. b * scale GHz) (obs_band_list (obs_freq_list M inp)))
       (channel_sefds M inp (eta_a (calculate_derived_parameters M True inp))))
     = (\<Sum>i<sub_channels M inp. sub_channel_width M inp i / (sub_channel_sefd M inp i) ^ 2)"
proof -
  let ?bs = "map (\<lambda>b. b * scale GHz) (obs_band_list (obs_freq_list M inp))"
  let ?ss = "channel_sefds M inp (eta_a (calculate_derived_parameters M True inp))"
  have len: "length ?bs = sub_channels M inp" "length ?bs = length ?ss"
    by (simp_all add: length_obs_band_list length_channel_sefds sub_channels_def)
  have "sum_list (map2 (\<lambda>b s. b / s ^ 2) ?bs ?ss) = (\<Sum>i<length ?bs. ?bs ! i / (?ss ! i) ^ 2)"
    using len(2) by (rule sum_list_map2_nth)
  also have "\<dots> = (\<Sum>i<sub_channels M inp. sub_channel_width M inp i / (sub_channel_sefd M inp i) ^ 2)"
    unfolding len(1) by (rule sum.cong) (simp_all only: lessThan_iff nth_scaled_bands nth_channel_sefds)
  finally show ?thesis .
qed

lemma sum_sub_channel_widths:
  "(\<Sum>i<sub_channels M inp. sub_channel_width M inp i) = si (bandwidth (user_input inp))"
proof -
  let ?bs = "map (\<lambda>b. b * scale GHz) (obs_band_list (obs_freq_list M inp))"
  have len: "length ?bs = sub_channels M inp"
    by (simp add: length_obs_band_list sub_channels_def)
  have "sum_list ?bs = (\<Sum>i<length ?bs. ?bs ! i)"
    by (simp add: sum_list_sum_nth atLeast0LessThan)
  also have "\<dots> = (\<Sum>i<sub_channels M inp. sub_channel_width M inp i)"
    unfolding len by (rule sum.cong) (simp_all only: lessThan_iff nth_scaled_bands)
  finally show ?thesis
    by (simp only: sum_scaled_bands)
qed

lemma sub_channel_width_nonneg:
  assumes "sorted (tau_atm_table_freqs M)" and "0 < si (bandwidth (user_input inp))"
    and "i < sub_channels M inp"
  shows "0 \<le> sub_channel_width M inp i"
proof -
  have "obs_freq_low inp \<le> obs_freq_upp inp"
    using assms(2) by (simp add: obs_freq_low_def obs_freq_upp_def field_simps)
  then have "sorted (obs_freq_list M inp)"
    using assms(1) by (rule sorted_obs_freq_list [rotated])
  moreover have "Suc i < length (obs_freq_list M inp)"
    using assms(3) by (simp add: sub_channels_def)
  ultimately have "obs_freq_list M inp ! i \<le> obs_freq_list M inp ! Suc i"
    by (simp add: sorted_iff_nth_mono)
  then show ?thesis
    by (simp add: sub_channel_width_def)
qed

lemma sub_channels_pos: "0 < sub_channels M inp"
  using length_obs_freq_list [of M inp] by (simp add: sub_channels_def)

lemma obs_freq_list_edges:
  "obs_freq_list M inp ! 0 = obs_freq_low inp"
  "obs_freq_list M inp ! sub_channels M inp = obs_freq_upp inp"
proof -
  show "obs_freq_list M inp ! 0 = obs_freq_low inp"
    by (simp add: obs_freq_list_def)
  have "obs_freq_list M inp \<noteq> []"
    by (simp add: obs_freq_list_def)
  then have "last (obs_freq_list M inp) = obs_freq_list M inp ! (length (obs_freq_list M inp) - 1)"
    by (rule last_conv_nth)
  then show "obs_freq_list M inp ! sub_channels M inp = obs_freq_upp inp"
    by (simp add: sub_channels_def hd_last_obs_freq_list)
qed

text \<open>
  Claim C8. With the frequencies of the atmosphere table in ascending order, a positive
  bandwidth and positive SEFDs in all sub-channels, the SEFD of finetune mode is
  \<open>sqrt (bandwidth / sum (width / sefd ^ 2))\<close>, the sum running over every sub-channel
  of the band. There is at least one sub-channel; the sub-channels start at the lower
  band edge and end at the upper one, they are cut at the grid points of the table that
  lie strictly inside the band, each has a non-negative width, and their widths add up
  to the bandwidth. The SEFD lies between the smallest and the largest of the
  SEFDs of the sub-channels.
\<close>

theorem finetune_sefd_between_channel_sefds:
  assumes "sorted (tau_atm_table_freqs M)"
    and "0 < si (bandwidth (user_input inp))"
    and "\<forall>i<sub_channels M inp. 0 < sub_channel_sefd M inp i"
  shows "sefd (calculate_derived_parameters M True inp)
       = sqrt (si (bandwidth (user_input inp))
           / (\<Sum>i<sub_channels M inp.
                sub_channel_width M inp i / (sub_channel_sefd M inp i) ^ 2))
     \<and> 0 < sub_channels M inp
     \<and> obs_freq_list M inp ! 0 = obs_freq_low inp
     \<and> obs_freq_list M inp ! sub_channels M inp = obs_freq_upp inp
     \<and> tl (butlast (obs_freq_list M inp))
       = filter (\<lambda>f. obs_freq_low inp < f \<and> f < obs_freq_upp inp) (tau_atm_table_freqs M)
     \<and> (\<forall>i<sub_channels M inp. 0 \<le> sub_channel_width M inp i)
     \<and> (\<Sum>i<sub_channels M inp. sub_channel_width M inp i) = si (bandwidth (user_input inp))
     \<and> Min (sub_channel_sefd M inp ` {..<sub_channels M inp})
       \<le> sefd (calculate_derived_parameters M True inp)
     \<and> sefd (calculate_derived_parameters M True inp)
       \<le> Max (sub_channel_sefd M inp ` {..<sub_channels M inp})"
proof -
  let ?ss = "channel_sefds M inp (eta_a (calculate_derived_parameters M True inp))"
  have positive: "\<forall>s \<in> set ?ss. 0 < s"
    using assms(3) by (auto simp: set_channel_sefds)
  have list_form: "Min (set ?ss) \<le> sefd (calculate_derived_parameters M True inp)
      \<and> sefd (calculate_derived_parameters M True inp) \<le> Max (set ?ss)"
    using finetune_sefd_bounds [OF assms(1) assms(2) positive] by blast
  have formula: "sefd (calculate_derived_parameters M True inp)
      = sqrt (si (bandwidth (user_input inp))
          / (\<Sum>i<sub_channels M inp.
               sub_channel_width M inp i / (sub_channel_sefd M inp i) ^ 2))"
    by (simp only: finetune_sefd effective_sefd_def finetune_sum_by_channel)
  have widths: "\<forall>i<sub_channels M inp. 0 \<le> sub_channel_width M inp i"
    using sub_channel_width_nonneg [OF assms(1) assms(2)] by blast
  have cuts: "tl (butlast (obs_freq_list M inp))
      = filter (\<lambda>f. obs_freq_low inp < f \<and> f < obs_freq_upp inp) (tau_atm_table_freqs M)"
    by (simp add: obs_freq_list_def butlast_append)
  show ?thesis
    using formula sub_channels_pos [of M inp] obs_freq_list_edges [of M inp] cuts widths
      sum_sub_channel_widths [of M inp] list_form
    unfolding set_channel_sefds by blast
qed

lemma offset_obs_freq_list:
  "obs_freq_list example_models offset_inputs = [998 / 10, 100, 1008 / 10]"
proof -
  have band: "obs_freq_low offset_inputs = 998 / 10" "obs_freq_upp offset_inputs = 1008 / 10"
    by (simp_all add: obs_freq_low_def obs_freq_upp_def offset_inputs_def example_inputs_def
        example_user_input_def si_def)
  show ?thesis
    by (simp add: obs_freq_list_def band) (simp add: example_models_def)
qed

lemma offset_sub_channels: "sub_channels example_models offset_inputs = 2"
  by (simp add: sub_channels_def offset_obs_freq_list)

lemma offset_sub_channel_width:
  "sub_channel_width example_models offset_inputs 0 = 200000000"
  "sub_channel_width example_models offset_inputs 1 = 800000000"
  by (simp_all add: sub_channel_width_def offset_obs_freq_list)

lemma offset_sub_channel_sefd:
  "sub_channel_sefd example_models offset_inputs 0 = 2 * k_B * 120 / (pi * 625)"
  "sub_channel_sefd example_models offset_inputs 1 = 2 * k_B * 180 / (pi * 625)"
  by (simp_all add: sub_channel_sefd_def offset_obs_freq_list example_eta_a channel_T_sys_def
      calculate_sefd_def Let_def)
    (simp_all add: example_models_def offset_inputs_def example_inputs_def
      example_instrument_setup_def si_def)

text \<open>
  Claim C8 on the example observation at 100.3 GHz: two sub-channels of 0.2 and 0.8 GHz
  with system temperatures of 120 K and 180 K, and an SEFD between theirs.
\<close>

theorem finetune_sefd_between_channel_sefds_witness:
  "sorted (tau_atm_table_freqs example_models)
   \<and> 0 < si (bandwidth (user_input offset_inputs))
   \<and> obs_freq_list example_models offset_inputs = [998 / 10, 100, 1008 / 10]
   \<and> sub_channels example_models offset_inputs = 2
   \<and> sub_channel_width example_models offset_inputs 0 = 200000000
   \<and> sub_channel_width example_models offset_inputs 1 = 800000000
   \<and> sub_channel_sefd example_models offset_inputs 0 = 2 * k_B * 120 / (pi * 625)
   \<and> sub_channel_sefd example_models offset_inputs 1 = 2 * k_B * 180 / (pi * 625)
   \<and> 0 < 2 * k_B * 120 / (pi * 625)
   \<and> 2 * k_B * 120 / (pi * 625) < 2 * k_B * 180 / (pi * 625)
   \<and> sefd (calculate_derived_parameters example_models True offset_inputs)
       = sqrt (1000000000 / (200000000 / (2 * k_B * 120 / (pi * 625)) ^ 2
                             + 800000000 / (2 * k_B * 180 / (pi * 625)) ^ 2))
   \<and> 2 * k_B * 120 / (pi * 625)
       \<le> sefd (calculate_derived_parameters example_models True offset_inputs)
   \<and> sefd (calculate_derived_parameters example_models True offset_inputs)
       \<le> 2 * k_B * 180 / (pi * 625)"
proof -
  let ?lo = "2 * k_B * 120 / (pi * 625)" and ?hi = "2 * k_B * 180 / (pi * 625)"
  have table: "sorted (tau_atm_table_freqs example_models)"
    by (simp add: example_models_def)
  have width: "0 < si (bandwidth (user_input offset_inputs))"
    by (simp add: offset_inputs_def example_inputs_def example_user_input_def si_def)
  have total: "si (bandwidth (user_input offset_inputs)) = 1000000000"
    by (simp add: offset_inputs_def example_inputs_def example_user_input_def si_def)
  have sizes: "0 < ?lo" "?lo < ?hi"
    using k_B_pos by (simp_all add: divide_strict_right_mono)
  have two: "{..<2::nat} = {0, 1}"
    by auto
  have positive: "\<forall>i<sub_channels example_models offset_inputs.
      0 < sub_channel_sefd example_models offset_inputs i"
    using sizes offset_sub_channel_sefd by (simp add: offset_sub_channels less_2_cases_iff)
  have smallest: "Min (sub_channel_sefd example_models offset_inputs
      ` {..<sub_channels example_models offset_inputs}) = ?lo"
    using sizes offset_sub_channel_sefd by (simp add: offset_sub_channels two)
  have largest: "Max (sub_channel_sefd example_models offset_inputs
      ` {..<sub_channels example_models offset_inputs}) = ?hi"
    using sizes offset_sub_channel_sefd by (simp add: offset_sub_channels two)
  have total_sum: "(\<Sum>i<sub_channels example_models offset_inputs.
        sub_channel_width example_models offset_inputs i
          / (sub_channel_sefd example_models offset_inputs i) ^ 2)
      = 200000000 / ?lo ^ 2 + 800000000 / ?hi ^ 2"
    using offset_sub_channel_width offset_sub_channel_sefd
    by (simp add: offset_sub_channels two)
  show ?thesis
    using finetune_sefd_between_channel_sefds [OF table width positive]
      table width sizes offset_sub_channels offset_sub_channel_width offset_sub_channel_sefd
      offset_obs_freq_list
    unfolding smallest largest total_sum total by blast
qed

end
